theory Spec2Isabelle
  imports Complex_Main "HOL-Library.AList" "HOL-Library.Sublist"
begin

section \<open>Python values and strings\<close>

text \<open>
  Webhook payloads and API results are JSON documents held in Python dicts
  (\<^verbatim>\<open>Dict[str, Any]\<close>).  A dict keeps insertion order, so an object is an
  association list; its keys are distinct, and a lookup (\<open>map_of\<close>) reads the entry of
  the key.
\<close>

datatype jval =
    JNull
  | JBool bool
  | JInt int
  | JFloat real
  | JStr string
  | JList "jval list"
  | JObj "(string \<times> jval) list"

text \<open>Exceptions the modelled code can raise; \<open>ExternalError\<close> is any exception
  coming out of a network call or an analysis engine.\<close>

datatype exn = TypeError | AttributeError | KeyError | ValueError | ExternalError

text \<open>Python truthiness (\<^verbatim>\<open>if x:\<close>).\<close>

fun truthy :: "jval \<Rightarrow> bool" where
  "truthy JNull = False"
| "truthy (JBool b) = b"
| "truthy (JInt n) = (n \<noteq> 0)"
| "truthy (JFloat r) = (r \<noteq> 0)"
| "truthy (JStr s) = (s \<noteq> [])"
| "truthy (JList xs) = (xs \<noteq> [])"
| "truthy (JObj kvs) = (kvs \<noteq> [])"

text \<open>\<^verbatim>\<open>str.lower()\<close> and \<^verbatim>\<open>str.upper()\<close> on the ASCII letters (strings are byte strings here).\<close>

definition lower_char :: "char \<Rightarrow> char" where
  "lower_char c =
     (case map_of (zip ''ABCDEFGHIJKLMNOPQRSTUVWXYZ'' ''abcdefghijklmnopqrstuvwxyz'') c of
        Some d \<Rightarrow> d | None \<Rightarrow> c)"

definition upper_char :: "char \<Rightarrow> char" where
  "upper_char c =
     (case map_of (zip ''abcdefghijklmnopqrstuvwxyz'' ''ABCDEFGHIJKLMNOPQRSTUVWXYZ'') c of
        Some d \<Rightarrow> d | None \<Rightarrow> c)"

definition str_lower :: "string \<Rightarrow> string" where
  "str_lower s = map lower_char s"

definition str_upper :: "string \<Rightarrow> string" where
  "str_upper s = map upper_char s"

definition is_letter :: "char \<Rightarrow> bool" where
  "is_letter c = (lower_char c \<noteq> c \<or> upper_char c \<noteq> c)"

text \<open>\<^verbatim>\<open>str.title()\<close>: a letter that follows a letter is lowered, any other letter is raised.\<close>

fun title_from :: "bool \<Rightarrow> string \<Rightarrow> string" where
  "title_from prev [] = []"
| "title_from prev (c # cs) =
     (if is_letter c
      then (if prev then lower_char c else upper_char c) # title_from True cs
      else c # title_from False cs)"

definition str_title :: "string \<Rightarrow> string" where
  "str_title s = title_from False s"

text \<open>\<^verbatim>\<open>sub in s\<close> on strings.\<close>

fun str_in :: "string \<Rightarrow> string \<Rightarrow> bool" where
  "str_in sub [] = (sub = [])"
| "str_in sub (c # cs) = (prefix sub (c # cs) \<or> str_in sub cs)"

text \<open>\<^verbatim>\<open>s.endswith('Z')\<close> and \<^verbatim>\<open>s[:-1]\<close>.\<close>

definition endswith_Z :: "string \<Rightarrow> bool" where
  "endswith_Z s = (s \<noteq> [] \<and> last s = CHR ''Z'')"

section \<open>models/incident.py\<close>

datatype IncidentSeverity = LOW | MEDIUM | HIGH | CRITICAL

datatype IncidentStatus = OPEN | IN_PROGRESS | RESOLVED | CLOSED | FAILED

fun severity_value :: "IncidentSeverity \<Rightarrow> string" where
  "severity_value LOW = ''low''"
| "severity_value MEDIUM = ''medium''"
| "severity_value HIGH = ''high''"
| "severity_value CRITICAL = ''critical''"

fun status_value :: "IncidentStatus \<Rightarrow> string" where
  "status_value OPEN = ''open''"
| "status_value IN_PROGRESS = ''in_progress''"
| "status_value RESOLVED = ''resolved''"
| "status_value CLOSED = ''closed''"
| "status_value FAILED = ''failed''"

text \<open>\<^verbatim>\<open>IncidentStatus(s)\<close>: the member whose value is \<open>s\<close>; ValueError (here \<open>None\<close>) otherwise.\<close>

definition IncidentStatus_of :: "string \<Rightarrow> IncidentStatus option" where
  "IncidentStatus_of s =
     (if s = ''open'' then Some OPEN
      else if s = ''in_progress'' then Some IN_PROGRESS
      else if s = ''resolved'' then Some RESOLVED
      else if s = ''closed'' then Some CLOSED
      else if s = ''failed'' then Some FAILED
      else None)"

text \<open>A \<^verbatim>\<open>datetime\<close>; \<open>dt_utcoffset\<close> is the offset of an aware value in minutes,
  \<open>None\<close> for a naive one.\<close>

record datetime =
  dt_year :: nat
  dt_month :: nat
  dt_day :: nat
  dt_hour :: nat
  dt_minute :: nat
  dt_second :: nat
  dt_utcoffset :: "int option"

text \<open>\<^verbatim>\<open>AIAnalysis\<close>: the fields the incident pipeline reads.\<close>

record AIAnalysis =
  analysis_root_cause :: string
  confidence :: real
  analysis_suggested_actions :: "string list"
  related_incidents :: "string list"

text \<open>\<^verbatim>\<open>ActionTaken\<close>.  The display texts (\<^verbatim>\<open>description\<close>, \<^verbatim>\<open>details\<close>) and
  \<^verbatim>\<open>executed_at\<close> are left out: no branch of the code reads them.\<close>

record ActionTaken =
  action_type :: string
  action_status :: string
  action_result :: "(string \<times> jval) list option"

text \<open>An element of \<^verbatim>\<open>Incident.actions_taken\<close>.  The webhook pipeline appends
  \<^verbatim>\<open>ActionTaken\<close> objects; the incident manager and the pull-request monitor append
  plain dicts.\<close>

datatype action_entry = ActionObj ActionTaken | ActionDict "(string \<times> jval) list"

record Signal =
  signal_source :: string
  signal_event_type :: string
  signal_description :: string
  signal_severity :: real
  is_anomaly :: bool
  signal_raw_data :: "(string \<times> jval) list"

record Incident =
  incident_id :: string
  title :: string
  description :: string
  severity :: IncidentSeverity
  status :: IncidentStatus
  source :: string
  raw_data :: "(string \<times> jval) list"
  detected_at :: datetime
  resolved_at :: "datetime option"
  root_cause :: "string option"
  confidence_score :: "real option"
  suggested_actions :: "string list"
  ml_insights :: "string list"
  copado_insights :: "string list"
  quantum_insights :: "string list"
  actions_taken :: "action_entry list"


text \<open>\<^verbatim>\<open>WebhookPayload\<close> (main.py); its optional \<^verbatim>\<open>timestamp\<close> is never read.\<close>

record WebhookPayload =
  payload_source :: string
  payload_event_type :: string
  payload_data :: "(string \<times> jval) list"

section \<open>Library functions\<close>

text \<open>
  Functions of the Python library that the code calls and whose full behaviour is not
  part of this repository: \<^verbatim>\<open>format(v)\<close> of a value inside an f-string,
  \<^verbatim>\<open>str(d)\<close> of a dict, and \<^verbatim>\<open>datetime.fromisoformat\<close> (\<open>None\<close> when it
  raises ValueError).
\<close>

record pylib =
  py_format :: "jval \<Rightarrow> string"
  py_str_dict :: "(string \<times> jval) list \<Rightarrow> string"
  fromisoformat :: "string \<Rightarrow> datetime option"

section \<open>The incident store and the status endpoint (main.py)\<close>

text \<open>The module-level dict \<^verbatim>\<open>incidents\<close> and the executor's
  \<^verbatim>\<open>incident_jira_mapping\<close>.\<close>

record app_state =
  incidents :: "(string \<times> Incident) list"
  incident_jira_mapping :: "(string \<times> jval) list"

text \<open>\<^verbatim>\<open>ActionExecutor.sync_jira_status\<close>.  \<open>search\<close> is the outcome of
  \<^verbatim>\<open>get_issue_key_from_incident_id\<close>, \<open>upd\<close> the outcome of
  \<^verbatim>\<open>update_issue_status\<close>; every exception ends in the handler of the method.\<close>

definition sync_jira_status ::
  "(string \<times> jval) list \<Rightarrow> exn + jval \<Rightarrow> exn + (string \<times> jval) list \<Rightarrow> Incident \<Rightarrow> ActionTaken"
where
  "sync_jira_status mapping search upd incident =
     (case (case map_of mapping (incident_id incident) of
              Some k \<Rightarrow> Inr k
            | None \<Rightarrow> search) of
        Inl e \<Rightarrow>
          \<lparr>action_type = ''jira_status_sync'', action_status = ''failed'',
           action_result = Some [(''error'', JNull)]\<rparr>
      | Inr issue_key \<Rightarrow>
          if \<not> truthy issue_key then
            \<lparr>action_type = ''jira_status_sync'', action_status = ''skipped'',
             action_result = None\<rparr>
          else
            (case upd of
               Inl e \<Rightarrow>
                 \<lparr>action_type = ''jira_status_sync'', action_status = ''failed'',
                  action_result = Some [(''error'', JNull)]\<rparr>
             | Inr result \<Rightarrow>
                 if (case map_of result ''success'' of Some v \<Rightarrow> truthy v | None \<Rightarrow> False) then
                   \<lparr>action_type = ''jira_status_sync'', action_status = ''completed'',
                    action_result = Some [(''issue_key'', issue_key),
                      (''new_status'', JStr (status_value (status incident)))]\<rparr>
                 else
                   \<lparr>action_type = ''jira_status_sync'', action_status = ''failed'',
                    action_result = Some [(''error'', JNull)]\<rparr>))"

datatype http_error = HTTP_404 | HTTP_400

record status_response =
  resp_status :: string
  resp_incident_id :: string
  resp_old_status :: string
  resp_jira_synced :: bool

text \<open>
  \<^verbatim>\<open>POST /incidents/{incident_id}/status/{new_status}\<close>.  \<open>now\<close> is the wall clock.
  The handler assigns \<^verbatim>\<open>old_status\<close> and \<^verbatim>\<open>incident.status\<close> twice, the second time
  after the first assignment of the new status.  The Jira synchronisation that follows
  runs inside \<^verbatim>\<open>try/except Exception\<close> and its result is dropped
  (the comment in the source: the sync action is not added to \<^verbatim>\<open>actions_taken\<close>).
\<close>

definition update_incident_status ::
  "datetime \<Rightarrow> string \<Rightarrow> string \<Rightarrow> app_state \<Rightarrow> (http_error + status_response) \<times> app_state"
where
  "update_incident_status now iid new_status st =
     (case map_of (incidents st) iid of
        None \<Rightarrow> (Inl HTTP_404, st)
      | Some incident \<Rightarrow>
          (case IncidentStatus_of (str_lower new_status) of
             None \<Rightarrow> (Inl HTTP_400, st)
           | Some status_enum \<Rightarrow>
               let old_status = status incident;
                   incident = incident\<lparr>status := status_enum\<rparr>;
                   incident = (if status_enum = RESOLVED
                               then incident\<lparr>resolved_at := Some now\<rparr> else incident);
                   old_status = status incident;
                   incident = incident\<lparr>status := status_enum\<rparr>
               in (Inr \<lparr>resp_status = status_value status_enum,
                         resp_incident_id = iid,
                         resp_old_status = status_value old_status,
                         resp_jira_synced = True\<rparr>,
                   st\<lparr>incidents := AList.update iid incident (incidents st)\<rparr>)))"

text \<open>\<^verbatim>\<open>POST /resolve/{incident_id}\<close>.\<close>

definition resolve_incident ::
  "datetime \<Rightarrow> string \<Rightarrow> app_state \<Rightarrow> (http_error + status_response) \<times> app_state"
where
  "resolve_incident now iid st = update_incident_status now iid ''resolved'' st"

section \<open>Signal detection (services/signal\_detector.py)\<close>

text \<open>\<^verbatim>\<open>event_type.replace('_', ' ')\<close>.\<close>

definition underscores_to_spaces :: "string \<Rightarrow> string" where
  "underscores_to_spaces s = map (\<lambda>c. if c = CHR ''_'' then CHR '' '' else c) s"

text \<open>\<^verbatim>\<open>severity_map.get(event_type, 0.7)\<close> of \<^verbatim>\<open>analyze_copado_event\<close>.\<close>

definition copado_severity :: "string \<Rightarrow> real" where
  "copado_severity event_type =
     (case map_of [(''deployment_failed'', 0.9), (''test_failed'', 0.7),
                   (''build_failed'', 0.8), (''pipeline_failed'', 0.8)] event_type of
        Some s \<Rightarrow> s | None \<Rightarrow> 0.7)"

definition analyze_copado_event :: "pylib \<Rightarrow> WebhookPayload \<Rightarrow> exn + Signal" where
  "analyze_copado_event L payload =
     (let event_data = payload_data payload;
          event_type = payload_event_type payload;
          description = ''Copado '' @ underscores_to_spaces event_type;
          description = (case map_of event_data ''error_message'' of
                           Some v \<Rightarrow> description @ '': '' @ py_format L v
                         | None \<Rightarrow> description)
      in Inr \<lparr>signal_source = ''copado'', signal_event_type = event_type,
               signal_description = description,
               signal_severity = copado_severity event_type,
               is_anomaly = True, signal_raw_data = event_data\<rparr>)"


text \<open>\<^verbatim>\<open>for x in v\<close>: the elements a loop over a value visits, TypeError when the
  value is not iterable.\<close>

fun py_iter :: "jval \<Rightarrow> exn + jval list" where
  "py_iter (JList xs) = Inr xs"
| "py_iter (JObj d) = Inr (map (\<lambda>kv. JStr (fst kv)) d)"
| "py_iter (JStr s) = Inr (map (\<lambda>c. JStr [c]) s)"
| "py_iter v = Inl TypeError"

text \<open>\<^verbatim>\<open>sub in v\<close> for a string \<open>sub\<close> and any value \<open>v\<close>.\<close>

fun py_in :: "string \<Rightarrow> jval \<Rightarrow> exn + bool" where
  "py_in sub (JStr s) = Inr (str_in sub s)"
| "py_in sub (JList xs) = Inr (JStr sub \<in> set xs)"
| "py_in sub (JObj d) = Inr (sub \<in> fst ` set d)"
| "py_in sub v = Inl TypeError"

text \<open>\<^verbatim>\<open>v > k\<close> for an integer literal \<open>k\<close>.\<close>

fun py_gt :: "jval \<Rightarrow> int \<Rightarrow> exn + bool" where
  "py_gt (JInt n) k = Inr (n > k)"
| "py_gt (JFloat r) k = Inr (r > of_int k)"
| "py_gt (JBool b) k = Inr ((if b then 1 else 0) > k)"
| "py_gt v k = Inl TypeError"

text \<open>\<^verbatim>\<open>d.get(k, "").lower()\<close>: AttributeError unless the value is a string.  The
  original value is returned with its lower-case form.\<close>

definition get_lower :: "(string \<times> jval) list \<Rightarrow> string \<Rightarrow> exn + (jval \<times> string)" where
  "get_lower d k =
     (case map_of d k of
        None \<Rightarrow> Inr (JNull, str_lower [])
      | Some (JStr s) \<Rightarrow> Inr (JStr s, str_lower s)
      | Some v \<Rightarrow> Inl AttributeError)"

definition any_in :: "string list \<Rightarrow> string \<Rightarrow> bool" where
  "any_in patterns s = (\<exists>p \<in> set patterns. str_in p s)"

text \<open>The loop over \<^verbatim>\<open>commits\<close> in \<^verbatim>\<open>analyze_git_event\<close>: the description of the
  first urgent commit, \<open>None\<close> when the loop ends without one.\<close>

fun scan_commits :: "pylib \<Rightarrow> jval list \<Rightarrow> exn + string option" where
  "scan_commits L [] = Inr None"
| "scan_commits L (JObj commit # rest) =
     (case get_lower commit ''message'' of
        Inl e \<Rightarrow> Inl e
      | Inr (orig, message) \<Rightarrow>
          if any_in [''fix'', ''hotfix'', ''urgent'', ''critical''] message
          then Inr (Some (''Urgent commit detected: '' @ py_format L orig))
          else scan_commits L rest)"
| "scan_commits L (v # rest) = Inl AttributeError"

definition analyze_git_event :: "pylib \<Rightarrow> WebhookPayload \<Rightarrow> exn + Signal" where
  "analyze_git_event L payload =
     (let event_data = payload_data payload;
          event_type = payload_event_type payload;
          mk = (\<lambda>anomaly sev descr.
                  Inr \<lparr>signal_source = ''git'', signal_event_type = event_type,
                       signal_description = descr, signal_severity = sev,
                       is_anomaly = anomaly, signal_raw_data = event_data\<rparr>);
          description = ''Git '' @ event_type @ '' event''
      in if event_type = ''push'' then
           (case py_iter (case map_of event_data ''commits'' of Some v \<Rightarrow> v | None \<Rightarrow> JList []) of
              Inl e \<Rightarrow> Inl e
            | Inr commits \<Rightarrow>
                (case scan_commits L commits of
                   Inl e \<Rightarrow> Inl e
                 | Inr (Some d) \<Rightarrow> mk True 0.6 d
                 | Inr None \<Rightarrow> mk False 0 description))
         else if event_type = ''pull_request'' then
           (case (case map_of event_data ''pull_request'' of Some v \<Rightarrow> v | None \<Rightarrow> JObj []) of
              JObj pr_data \<Rightarrow>
                (case get_lower pr_data ''title'' of
                   Inl e \<Rightarrow> Inl e
                 | Inr (orig, lowered) \<Rightarrow>
                     if any_in [''fix'', ''bug'', ''critical'', ''hotfix''] lowered
                     then mk True 0.5 (''Bug fix PR detected: '' @ py_format L orig)
                     else mk False 0 description)
            | v \<Rightarrow> Inl AttributeError)
         else if event_type = ''hotfix_commit'' then
           mk True 0.8 (''Critical hotfix commit: '' @
              (case map_of event_data ''commit_message'' of Some v \<Rightarrow> py_format L v | None \<Rightarrow> []))
         else mk False 0 description)"

definition risky_operations :: "string list" where
  "risky_operations = [''delete_user'', ''change_permission_set'', ''modify_profile'',
     ''delete_custom_object'', ''change_org_settings'', ''audit_alert'', ''permission_change'']"

text \<open>\<^verbatim>\<open>operation.lower()\<close> of \<^verbatim>\<open>analyze_salesforce_event\<close>, where
  \<^verbatim>\<open>operation = event_data.get("operation", event_data.get("alert_type", ""))\<close>.\<close>

definition operation_lower :: "(string \<times> jval) list \<Rightarrow> exn + (jval \<times> string)" where
  "operation_lower event_data =
     (case (case map_of event_data ''operation'' of
              Some v \<Rightarrow> v
            | None \<Rightarrow> (case map_of event_data ''alert_type'' of Some v \<Rightarrow> v | None \<Rightarrow> JStr [])) of
        JStr s \<Rightarrow> Inr (JStr s, str_lower s)
      | v \<Rightarrow> Inl AttributeError)"

text \<open>\<^verbatim>\<open>timestamp and ("02:" in timestamp or "03:" in timestamp or "01:" in timestamp)\<close>.\<close>

definition night_check :: "jval \<Rightarrow> exn + bool" where
  "night_check timestamp =
     (if \<not> truthy timestamp then Inr False
      else (case py_in ''02:'' timestamp of
              Inl e \<Rightarrow> Inl e
            | Inr True \<Rightarrow> Inr True
            | Inr False \<Rightarrow>
                (case py_in ''03:'' timestamp of
                   Inl e \<Rightarrow> Inl e
                 | Inr True \<Rightarrow> Inr True
                 | Inr False \<Rightarrow> py_in ''01:'' timestamp)))"

definition analyze_salesforce_event :: "pylib \<Rightarrow> WebhookPayload \<Rightarrow> exn + Signal" where
  "analyze_salesforce_event L payload =
     (let event_data = payload_data payload;
          event_type = payload_event_type payload;
          mk = (\<lambda>anomaly sev descr.
                  Inr \<lparr>signal_source = ''salesforce'', signal_event_type = event_type,
                       signal_description = descr, signal_severity = sev,
                       is_anomaly = anomaly, signal_raw_data = event_data\<rparr>);
          description = ''Salesforce '' @ event_type;
          action = (case map_of event_data ''action'' of Some v \<Rightarrow> v | None \<Rightarrow> JStr []);
          bulk = (case py_gt (case map_of event_data ''records_count'' of
                                Some v \<Rightarrow> v | None \<Rightarrow> JInt 0) 100 of
                    Inl e \<Rightarrow> Inl e
                  | Inr True \<Rightarrow> mk True 0.8 description
                  | Inr False \<Rightarrow>
                      (case py_gt (case map_of event_data ''records_count'' of
                                     Some v \<Rightarrow> v | None \<Rightarrow> JInt 0) 10 of
                         Inl e \<Rightarrow> Inl e
                       | Inr True \<Rightarrow> mk True 0.7 description
                       | Inr False \<Rightarrow> mk True 0.6 description))
      in if action = JStr ''DELETE'' then bulk
         else
           (case operation_lower event_data of
              Inl e \<Rightarrow> Inl e
            | Inr (operation, lowered) \<Rightarrow>
                if str_in ''delete'' lowered then bulk
                else if any_in risky_operations lowered \<or> event_type = ''audit_alert'' then
                  (case night_check (case map_of event_data ''timestamp'' of
                                       Some v \<Rightarrow> v | None \<Rightarrow> JStr []) of
                     Inl e \<Rightarrow> Inl e
                   | Inr night \<Rightarrow>
                       mk True 0.7
                          (''Risky Salesforce operation: '' @ py_format L operation @
                           '' permissions by '' @
                           (case map_of event_data ''username'' of
                              Some v \<Rightarrow> py_format L v | None \<Rightarrow> ''Unknown user'') @
                           (if night then '' during business hours'' else [])))
                else mk False 0 description))"

section \<open>Incident creation (main.py)\<close>

definition timestamp_fields :: "string list" where
  "timestamp_fields = [''timestamp'', ''detected_at'', ''last_success'', ''deployment_time'']"

text \<open>The rewrite of a trailing \<^verbatim>\<open>Z\<close> before parsing.\<close>

definition normalize_Z :: "string \<Rightarrow> string" where
  "normalize_Z s = (if endswith_Z s then butlast s @ ''+00:00'' else s)"

text \<open>
  One \<^verbatim>\<open>for field in timestamp_fields\<close> loop over a dict: the first field that is
  present, holds a string and parses ends the loop with its value; a field that is
  absent, is not a string, or does not parse is passed over.  \<open>None\<close>: the loop ended
  without assigning \<^verbatim>\<open>detected_at\<close>.
\<close>

fun scan_fields :: "pylib \<Rightarrow> (string \<times> jval) list \<Rightarrow> string list \<Rightarrow> datetime option" where
  "scan_fields L d [] = None"
| "scan_fields L d (f # fs) =
     (case map_of d f of
        Some (JStr s) \<Rightarrow>
          (case fromisoformat L (normalize_Z s) of
             Some t \<Rightarrow> Some t
           | None \<Rightarrow> scan_fields L d fs)
      | _ \<Rightarrow> scan_fields L d fs)"

text \<open>
  The second loop runs over \<^verbatim>\<open>raw_data['data']\<close>, whatever its type.
  \<^verbatim>\<open>field in data\<close> is key membership on a dict, a substring test on a string, element
  membership on a list and a TypeError on a number, a boolean or \<^verbatim>\<open>None\<close>;
  \<^verbatim>\<open>data[field]\<close> with a string index is a TypeError on a string and on a list.
  Neither stands inside the \<^verbatim>\<open>try\<close>.
\<close>

fun scan_nested :: "pylib \<Rightarrow> jval \<Rightarrow> string list \<Rightarrow> exn + datetime option" where
  "scan_nested L (JObj d) fs = Inr (scan_fields L d fs)"
| "scan_nested L (JStr s) fs = (if \<exists>f \<in> set fs. str_in f s then Inl TypeError else Inr None)"
| "scan_nested L (JList xs) fs = (if \<exists>f \<in> set fs. JStr f \<in> set xs then Inl TypeError else Inr None)"
| "scan_nested L v fs = (if fs = [] then Inr None else Inl TypeError)"

definition extract_detected_at :: "pylib \<Rightarrow> datetime \<Rightarrow> (string \<times> jval) list \<Rightarrow> exn + datetime" where
  "extract_detected_at L now raw =
     (if raw = [] then Inr now
      else
        let detected_at = (case scan_fields L raw timestamp_fields of
                             Some t \<Rightarrow> t | None \<Rightarrow> now)
        in (case map_of raw ''data'' of
              None \<Rightarrow> Inr detected_at
            | Some data \<Rightarrow>
                (case scan_nested L data timestamp_fields of
                   Inl e \<Rightarrow> Inl e
                 | Inr None \<Rightarrow> Inr detected_at
                 | Inr (Some t) \<Rightarrow> Inr t)))"

text \<open>
  \<^verbatim>\<open>create_incident_from_signal(signal, source)\<close>.  \<open>new_id\<close> is the fresh
  \<^verbatim>\<open>uuid4\<close> string, \<open>now\<close> the wall clock.
\<close>

definition create_incident_from_signal ::
  "pylib \<Rightarrow> string \<Rightarrow> datetime \<Rightarrow> Signal \<Rightarrow> string \<Rightarrow> app_state \<Rightarrow> exn + (Incident \<times> app_state)"
where
  "create_incident_from_signal L new_id now signal src st =
     (case extract_detected_at L now (signal_raw_data signal) of
        Inl e \<Rightarrow> Inl e
      | Inr t \<Rightarrow>
          let incident =
            \<lparr>incident_id = new_id,
             title = str_title src @ '' Issue Detected'',
             description = signal_description signal,
             severity = (if signal_severity signal > 0.7 then HIGH else MEDIUM),
             status = OPEN,
             source = src,
             raw_data = signal_raw_data signal,
             detected_at = t,
             resolved_at = None,
             root_cause = None,
             confidence_score = None,
             suggested_actions = [],
             ml_insights = [],
             copado_insights = [],
             quantum_insights = [],
             actions_taken = []\<rparr>
          in Inr (incident, st\<lparr>incidents := AList.update new_id incident (incidents st)\<rparr>))"



section \<open>Analysis (services/ai\_analyzer.py)\<close>

text \<open>
  Confidence scores are Python floats; they are modelled as real numbers, so the
  arithmetic below is exact where the program rounds.

  \<^verbatim>\<open>list(dict.fromkeys(xs))\<close>: the keys are inserted one after the other into an
  insertion-ordered dict; a key that is already present keeps its place.
\<close>

definition dict_fromkeys :: "'a list \<Rightarrow> ('a \<times> unit) list" where
  "dict_fromkeys xs = foldl (\<lambda>d k. AList.update k () d) [] xs"

definition unique_keys :: "'a list \<Rightarrow> 'a list" where
  "unique_keys xs = map fst (dict_fromkeys xs)"

text \<open>The result dicts of the analysis steps; a field is \<open>None\<close> when the key is
  absent, so that \<^verbatim>\<open>d.get(key, default)\<close> is \<open>case_option default id\<close>.\<close>

record ai_result =
  ai_root_cause :: "string option"
  ai_confidence :: "real option"
  ai_suggested_actions :: "string list option"
  ai_related_incidents :: "string list option"

record pattern_result =
  pattern_confidence :: "real option"

record prediction_result =
  prediction_confidence :: "real option"
  prevention_suggestions :: "string list option"

record similarity_result =
  similarity_confidence :: "real option"
  similar_incident_ids :: "string list"

definition get_or :: "'a option \<Rightarrow> 'a \<Rightarrow> 'a" where
  "get_or v d = (case v of Some x \<Rightarrow> x | None \<Rightarrow> d)"

text \<open>\<^verbatim>\<open>AIAnalyzer._combine_analyses\<close> (the ensemble path).\<close>

definition combined_confidence ::
  "ai_result \<Rightarrow> pattern_result \<Rightarrow> prediction_result \<Rightarrow> similarity_result \<Rightarrow> real" where
  "combined_confidence a p r s =
     get_or (ai_confidence a) 0.5 * 0.4 +
     get_or (pattern_confidence p) 0.3 * 0.25 +
     get_or (prediction_confidence r) 0.6 * 0.2 +
     get_or (similarity_confidence s) 0.3 * 0.15"

definition combine_analyses ::
  "ai_result \<Rightarrow> pattern_result \<Rightarrow> prediction_result \<Rightarrow> similarity_result \<Rightarrow> AIAnalysis" where
  "combine_analyses a p r s =
     (let all_actions = get_or (ai_suggested_actions a) [] @ get_or (prevention_suggestions r) [];
          unique_actions = unique_keys all_actions;
          related = get_or (ai_related_incidents a) [] @ similar_incident_ids s
      in \<lparr>analysis_root_cause = get_or (ai_root_cause a) ''Multi-factor analysis completed'',
          confidence = min 0.95 (combined_confidence a p r s),
          analysis_suggested_actions = take 8 unique_actions,
          related_incidents = take 5 related\<rparr>)"

text \<open>\<^verbatim>\<open>AIAnalyzer._predict_incident_impact\<close>: the prevention suggestions depend on the
  source; the dict has no \<^verbatim>\<open>confidence\<close> key.\<close>

definition predict_incident_impact :: "Incident \<Rightarrow> prediction_result" where
  "predict_incident_impact incident =
     \<lparr>prediction_confidence = None,
      prevention_suggestions = Some
        (if source incident = ''copado'' then
           [''Implement pre-deployment validation checks'',
            ''Add automated rollback triggers'',
            ''Enhance test coverage for critical paths'']
         else if source incident = ''git'' then
           [''Implement mandatory code reviews'',
            ''Add pre-commit hooks for validation'',
            ''Set up branch protection rules'']
         else if source incident = ''salesforce'' then
           [''Implement field validation rules'',
            ''Add audit trail monitoring'',
            ''Set up permission monitoring'']
         else [])\<rparr>"

text \<open>\<^verbatim>\<open>AIAnalyzer._fallback_analysis\<close>, the rule-based analysis.\<close>

definition fallback_analysis :: "pylib \<Rightarrow> Incident \<Rightarrow> AIAnalysis" where
  "fallback_analysis L incident =
     (let incident_text = str_lower (description incident @ '' '' @ py_str_dict L (raw_data incident));
          mk = (\<lambda>rc c acts. \<lparr>analysis_root_cause = rc, confidence = c,
                              analysis_suggested_actions = acts, related_incidents = []\<rparr>)
      in if source incident = ''copado'' then
           (if str_in ''test_failed'' incident_text \<or> str_in ''test failure'' incident_text then
              (let acts = [''Review failed test logs and error details'',
                           ''Check recent code changes in trigger logic'',
                           ''Verify field validation rules'',
                           ''Run regression tests on similar components'']
               in if str_in ''required_field_missing'' incident_text then
                    mk ''Fallback analysis: Missing required field validation in Account trigger'' 0.87 acts
                  else if str_in ''element not found'' incident_text then
                    mk ''Fallback analysis: UI element selector changed in recent deployment'' 0.85 acts
                  else
                    mk ''Fallback analysis: Test failure in CI/CD pipeline - validation error'' 0.78 acts)
            else if str_in ''deployment_failed'' incident_text \<or> str_in ''deployment failure'' incident_text then
              mk ''Fallback analysis: Deployment validation failed - missing required metadata fields'' 0.92
                 [''Check deployment logs for validation errors'',
                  ''Verify metadata field requirements'',
                  ''Review target environment configuration'',
                  ''Trigger automatic rollback if critical'']
            else if str_in ''build_failed'' incident_text then
              mk ''Fallback analysis: Build compilation error in CI/CD pipeline'' 0.88
                 [''Review build logs for compilation errors'',
                  ''Check recent code changes'',
                  ''Verify dependencies and imports'',
                  ''Run local build to reproduce issue'']
            else
              mk ''Fallback analysis: Copado CI/CD pipeline issue detected'' 0.80
                 [''Review Copado pipeline logs'',
                  ''Check environment configuration'',
                  ''Verify user permissions and access''])
         else if source incident = ''git'' then
           mk ''Fallback analysis: Git repository change detected with potential risk'' 0.6
              [''Review recent commits and changes'',
               ''Run regression tests on affected modules'',
               ''Consider rollback if critical'',
               ''Add monitoring alerts for similar issues'']
         else if source incident = ''salesforce'' then
           mk ''Fallback analysis: Admin user updated profile permissions during maintenance'' 0.78
              [''Check Salesforce audit trail for permission changes'',
               ''Review recent configuration modifications'',
               ''Verify data integrity and access controls'',
               ''Document approved maintenance activities'']
         else
           mk ''Fallback analysis: Configuration or deployment issue detected'' 0.75 [])"

text \<open>
  \<^verbatim>\<open>AIAnalyzer.analyze_incident\<close>.  \<open>remote\<close> is the outcome of the remote call
  \<^verbatim>\<open>_call_copado_ai\<close>; \<open>p\<close> and \<open>s\<close> are the results of the pattern and similarity
  steps, which read the analyzer's history and catch their own exceptions.  An exception
  of the remote call is caught next to the call and answered with the fallback analysis;
  the \<^verbatim>\<open>AIAnalysis\<close> constructor rejects a confidence outside \<open>[0, 1]\<close>, which the outer
  handler answers with the fallback analysis as well.
\<close>

definition analyze_incident ::
  "pylib \<Rightarrow> exn + ai_result \<Rightarrow> pattern_result \<Rightarrow> similarity_result \<Rightarrow> Incident \<Rightarrow> AIAnalysis" where
  "analyze_incident L remote p s incident =
     (case remote of
        Inl e \<Rightarrow> fallback_analysis L incident
      | Inr a \<Rightarrow>
          (let ensemble = combine_analyses a p (predict_incident_impact incident) s
           in if 0 \<le> confidence ensemble \<and> confidence ensemble \<le> 1
              then ensemble
              else fallback_analysis L incident))"

text \<open>The result dicts of the other three engines, as far as \<^verbatim>\<open>analyze_and_act\<close>
  reads them, and the health score that the Copado engine reports
  (\<^verbatim>\<open>deployment_health_score\<close>), which \<^verbatim>\<open>analyze_and_act\<close> does not read.\<close>

record ml_prediction =
  ml_confidence :: "real option"
  ml_recommended_actions :: "string list option"
  ml_insights_key :: "string list option"

record copado_analysis =
  deployment_health_score :: "real option"
  optimization_actions :: "string list option"
  copado_insights_key :: "string list option"

record quantum_analysis =
  quantum_confidence :: "real option"
  quantum_recommendations :: "string list option"
  parallel_insights :: "string list option"


section \<open>Action execution (services/action\_executor.py)\<close>

text \<open>
  Everything one run of the pipeline gets from outside: the fresh id, the clock, the
  outcome of every engine and of every network call (\<open>Inl\<close>: the call raised; for an
  HTTP call \<open>Inr\<close> carries the status code of a response whose body could be read),
  and the executor's configuration from the environment.
\<close>

record world =
  new_id :: string
  created_now :: datetime
  resolved_now :: datetime
  remote_ai :: "exn + ai_result"
  patterns :: pattern_result
  similar :: similarity_result
  ml_engine :: "exn + ml_prediction"
  copado_engine :: "exn + copado_analysis"
  quantum_engine :: "exn + quantum_analysis"
  github_token :: "string option"
  slack_webhook :: "string option"
  jira_create :: "exn + (string \<times> jval) list"
  github_post :: "exn + nat"
  slack_post :: "exn + nat"
  rollback_post :: "exn + nat"

text \<open>\<^verbatim>\<open>if self.github_token\<close> for a value of \<^verbatim>\<open>os.getenv\<close>.\<close>

definition configured :: "string option \<Rightarrow> bool" where
  "configured t = (case t of Some s \<Rightarrow> s \<noteq> [] | None \<Rightarrow> False)"

definition dict_get :: "(string \<times> jval) list \<Rightarrow> string \<Rightarrow> jval" where
  "dict_get d k = (case map_of d k of Some v \<Rightarrow> v | None \<Rightarrow> JNull)"

definition py_or :: "jval \<Rightarrow> jval \<Rightarrow> jval" where
  "py_or a b = (if truthy a then a else b)"

definition map_severity_to_priority :: "string \<Rightarrow> string" where
  "map_severity_to_priority sev =
     (case map_of [(''low'', ''Low''), (''medium'', ''Medium''), (''high'', ''High''),
                   (''critical'', ''Highest'')] sev of
        Some p \<Rightarrow> p | None \<Rightarrow> ''Medium'')"

definition browse_url :: string where
  "browse_url = ''https://kartheekdasari1998.atlassian.net/browse/''"

text \<open>\<^verbatim>\<open>_create_demo_user_story\<close>; the \<^verbatim>\<open>description\<close> entry of the result, a text
  with a formatted percentage, is left out.\<close>

definition create_demo_user_story :: "Incident \<Rightarrow> ActionTaken" where
  "create_demo_user_story incident =
     (let story_id = ''US-'' @ str_upper (take 8 (incident_id incident))
      in \<lparr>action_type = ''jira_user_story'',
          action_status = ''success'',
          action_result = Some
            [(''user_story_id'', JStr story_id),
             (''title'', JStr (''[INCIDENT] '' @ title incident)),
             (''priority'', JStr (map_severity_to_priority (severity_value (severity incident)))),
             (''status'', JStr ''Draft''),
             (''url'', JStr (browse_url @ story_id))]\<rparr>)"

text \<open>
  \<^verbatim>\<open>_create_jira_user_story\<close>.  The whole body is one \<^verbatim>\<open>try\<close>: an exception of the
  API call and a KeyError of \<^verbatim>\<open>result['...']\<close> both end in the demo story.  The
  id-to-ticket mapping is written before the \<^verbatim>\<open>ActionTaken\<close> is built.
\<close>

definition create_jira_user_story ::
  "world \<Rightarrow> Incident \<Rightarrow> (string \<times> jval) list \<Rightarrow> ActionTaken \<times> (string \<times> jval) list" where
  "create_jira_user_story w incident mapping =
     (case jira_create w of
        Inl e \<Rightarrow> (create_demo_user_story incident, mapping)
      | Inr result \<Rightarrow>
          (case map_of result ''success'' of
             None \<Rightarrow> (create_demo_user_story incident, mapping)
           | Some ok \<Rightarrow>
               if truthy ok then
                 (case map_of result ''issue_key'' of
                    None \<Rightarrow> (create_demo_user_story incident, mapping)
                  | Some key \<Rightarrow>
                      let mapping' = AList.update (incident_id incident) key mapping
                      in (case (map_of result ''issue_url'', map_of result ''summary'',
                                map_of result ''priority'', map_of result ''description'') of
                            (Some url, Some summary, Some prio, Some descr) \<Rightarrow>
                              (\<lparr>action_type = ''jira_user_story'',
                                action_status = ''success'',
                                action_result = Some
                                  [(''issue_key'', key), (''issue_url'', url),
                                   (''summary'', summary), (''priority'', prio),
                                   (''description'', descr),
                                   (''initial_status'',
                                      (case map_of result ''initial_status'' of
                                         Some v \<Rightarrow> v | None \<Rightarrow> JStr ''To Do''))]\<rparr>,
                               mapping')
                          | _ \<Rightarrow> (create_demo_user_story incident, mapping')))
               else (create_demo_user_story incident, mapping)))"

text \<open>\<^verbatim>\<open>_extract_pr_info\<close>: every exception inside is swallowed and gives \<^verbatim>\<open>None\<close>.\<close>

definition extract_pr_info :: "pylib \<Rightarrow> (string \<times> jval) list \<Rightarrow> (string \<times> jval) list option" where
  "extract_pr_info L raw =
     (case map_of raw ''pull_request'' of
        Some pr \<Rightarrow>
          (case (case map_of raw ''repository'' of Some v \<Rightarrow> v | None \<Rightarrow> JObj []) of
             JObj repo \<Rightarrow>
               (case pr of
                  JObj prd \<Rightarrow>
                    Some [(''repo'', dict_get repo ''full_name''),
                          (''pr_number'', JStr (py_format L (dict_get prd ''number''))),
                          (''pr_url'', dict_get prd ''html_url'')]
                | v \<Rightarrow> None)
           | v \<Rightarrow> None)
      | None \<Rightarrow>
          (case (map_of raw ''pr_number'', map_of raw ''repo'') of
             (Some n, Some r) \<Rightarrow>
               Some [(''repo'', r),
                     (''pr_number'', JStr (py_format L n)),
                     (''pr_url'', JStr (''https://github.com/'' @ py_format L r @ ''/pull/'' @ py_format L n))]
           | _ \<Rightarrow> None))"

text \<open>The result dicts of the notification and comment actions echo response bodies;
  only a marker entry is kept.\<close>

definition mk_action :: "string \<Rightarrow> string \<Rightarrow> (string \<times> jval) list option \<Rightarrow> ActionTaken" where
  "mk_action t s r = \<lparr>action_type = t, action_status = s, action_result = r\<rparr>"

definition post_github_comment :: "pylib \<Rightarrow> world \<Rightarrow> Incident \<Rightarrow> ActionTaken" where
  "post_github_comment L w incident =
     (case extract_pr_info L (raw_data incident) of
        None \<Rightarrow> mk_action ''github_comment'' ''skipped'' None
      | Some pr_info \<Rightarrow>
          (case github_post w of
             Inl e \<Rightarrow> mk_action ''github_comment'' ''failed'' (Some [(''error'', JNull)])
           | Inr code \<Rightarrow>
               if code = 201
               then mk_action ''github_comment'' ''success'' (Some [(''label_added'', JStr ''ai-analyzed'')])
               else mk_action ''github_comment'' ''failed'' (Some [(''error'', JNull)])))"

definition send_slack_notification :: "world \<Rightarrow> ActionTaken" where
  "send_slack_notification w =
     (case slack_post w of
        Inl e \<Rightarrow> mk_action ''slack_notification'' ''failed'' (Some [(''error'', JNull)])
      | Inr code \<Rightarrow>
          if code = 200
          then mk_action ''slack_notification'' ''success'' (Some [(''slack_ts'', JNull)])
          else mk_action ''slack_notification'' ''failed'' (Some [(''status_code'', JInt (int code))]))"

definition trigger_rollback :: "world \<Rightarrow> ActionTaken" where
  "trigger_rollback w =
     (case rollback_post w of
        Inl e \<Rightarrow> mk_action ''automated_rollback'' ''failed'' (Some [(''error'', JNull)])
      | Inr code \<Rightarrow>
          if code = 200
          then mk_action ''automated_rollback'' ''success'' (Some [(''rollback_id'', JNull)])
          else mk_action ''automated_rollback'' ''failed'' (Some [(''status_code'', JInt (int code))]))"

text \<open>
  The ticket step of \<^verbatim>\<open>execute_actions\<close>: the call of \<^verbatim>\<open>_create_jira_user_story\<close> and
  the branch on its result.  The first component tells which branch ran (\<open>True\<close>: the
  \<^verbatim>\<open>else\<close> branch that builds a second, synthetic ticket action); then the actions
  appended so far and the ticket id and URL handed to the notification.  The second
  component of the pair is the mapping, written even when the step raises afterwards.
  \<^verbatim>\<open>"atlassian.net" not in jira_story_url\<close> stands outside every \<^verbatim>\<open>try\<close>.
\<close>

definition jira_step ::
  "pylib \<Rightarrow> world \<Rightarrow> Incident \<Rightarrow> (string \<times> jval) list \<Rightarrow>
   (exn + (bool \<times> ActionTaken list \<times> jval \<times> jval)) \<times> (string \<times> jval) list" where
  "jira_step L w incident mapping =
     (let (jira_action, mapping') = create_jira_user_story w incident mapping
      in if action_status jira_action = ''success'' \<and>
            (case action_result jira_action of Some r \<Rightarrow> r \<noteq> [] | None \<Rightarrow> False)
         then
           (let r = get_or (action_result jira_action) [];
                jira_story_id = py_or (dict_get r ''issue_key'') (dict_get r ''user_story_id'');
                jira_story_url = py_or (dict_get r ''issue_url'') (dict_get r ''url'');
                rebuilt = JStr (browse_url @ py_format L jira_story_id)
            in if truthy jira_story_id \<and> \<not> truthy jira_story_url then
                 (Inr (False, [jira_action], jira_story_id, rebuilt), mapping')
               else if truthy jira_story_url then
                 (case py_in ''atlassian.net'' jira_story_url of
                    Inl e \<Rightarrow> (Inl e, mapping')
                  | Inr True \<Rightarrow> (Inr (False, [jira_action], jira_story_id, jira_story_url), mapping')
                  | Inr False \<Rightarrow> (Inr (False, [jira_action], jira_story_id, rebuilt), mapping'))
               else (Inr (False, [jira_action], jira_story_id, jira_story_url), mapping'))
         else
           (let jira_story_id = ''AIOBS-'' @ str_upper (take 2 (incident_id incident)) @
                                py_format L (JInt (int (length (title incident))));
                jira_story_url = browse_url @ jira_story_id;
                demo = mk_action ''jira_user_story'' ''success''
                         (Some [(''user_story_id'', JStr jira_story_id),
                                (''priority'', JStr ''High''),
                                (''url'', JStr jira_story_url)])
            in (Inr (True, [jira_action, demo], JStr jira_story_id, JStr jira_story_url), mapping')))"

text \<open>The three steps after the ticket, each as the actions it appends: the comment
  (only for a git-like source), the chat notification (always one action), the rollback
  (only for a critical incident analysed with confidence above 0.8; \<^verbatim>\<open>demo_mode\<close> is
  the constant \<^verbatim>\<open>False\<close>).\<close>

definition github_step :: "pylib \<Rightarrow> world \<Rightarrow> Incident \<Rightarrow> ActionTaken list" where
  "github_step L w incident =
     (let git_like = (source incident = ''git'' \<or> source incident = ''github_pr'')
      in if configured (github_token w) \<and> git_like
         then [post_github_comment L w incident]
         else if git_like
         then [mk_action ''github_comment'' ''success''
                 (Some [(''pr_number'', JStr ''123''), (''comment_id'', JStr ''456789'')])]
         else [])"

definition slack_step :: "world \<Rightarrow> jval \<Rightarrow> ActionTaken list" where
  "slack_step w jira_story_id =
     (if configured (slack_webhook w)
      then [send_slack_notification w]
      else [mk_action ''slack_notification'' ''success''
              (Some [(''channel'', JStr ''#devops-alerts''),
                     (''message_id'', JStr ''1234567890''),
                     (''jira_story'', jira_story_id)])])"

definition rollback_step :: "world \<Rightarrow> Incident \<Rightarrow> AIAnalysis \<Rightarrow> ActionTaken list" where
  "rollback_step w incident analysis =
     (if severity_value (severity incident) = ''critical'' \<and> confidence analysis > 0.8
      then [trigger_rollback w]
      else [])"

text \<open>\<^verbatim>\<open>execute_actions(incident, analysis)\<close>: the four steps in their fixed order, each
  appending to \<^verbatim>\<open>actions_taken\<close>.\<close>

definition execute_actions ::
  "pylib \<Rightarrow> world \<Rightarrow> Incident \<Rightarrow> AIAnalysis \<Rightarrow> (string \<times> jval) list \<Rightarrow>
   (exn + ActionTaken list) \<times> (string \<times> jval) list" where
  "execute_actions L w incident analysis mapping =
     (case jira_step L w incident mapping of
        (Inl e, mapping') \<Rightarrow> (Inl e, mapping')
      | (Inr (fallback, acts1, jira_story_id, jira_story_url), mapping') \<Rightarrow>
          (Inr (acts1 @ github_step L w incident @ slack_step w jira_story_id @
                rollback_step w incident analysis),
           mapping'))"

section \<open>The pipeline (main.py)\<close>

text \<open>The confidence and the suggested actions that \<^verbatim>\<open>analyze_and_act\<close> writes into
  the incident (the webhook path).\<close>

definition webhook_confidence :: "AIAnalysis \<Rightarrow> ml_prediction \<Rightarrow> quantum_analysis \<Rightarrow> real" where
  "webhook_confidence analysis ml q =
     min 0.98 ((confidence analysis + get_or (ml_confidence ml) 0.5 +
                get_or (quantum_confidence q) 0.5) / 3 + 0.15)"

definition webhook_actions ::
  "AIAnalysis \<Rightarrow> ml_prediction \<Rightarrow> copado_analysis \<Rightarrow> quantum_analysis \<Rightarrow> string list" where
  "webhook_actions analysis ml c q =
     take 5 (unique_keys (analysis_suggested_actions analysis @
                          get_or (ml_recommended_actions ml) [] @
                          get_or (optimization_actions c) [] @
                          get_or (quantum_recommendations q) []))"

text \<open>
  The merge as the specification words it, for comparison with the two definitions
  above: duplicates removed with the first occurrence kept in place, and a confidence
  that gives each of the four engines' scores the weight one third, adds the boost and
  caps the sum.
\<close>

fun first_seen :: "'a list \<Rightarrow> 'a list" where
  "first_seen [] = []"
| "first_seen (x # xs) = x # first_seen (filter (\<lambda>y. y \<noteq> x) xs)"

definition claimed_webhook_confidence :: "real \<Rightarrow> real \<Rightarrow> real \<Rightarrow> real \<Rightarrow> real" where
  "claimed_webhook_confidence ai ml copado quantum =
     min 0.98 ((ai + ml + copado + quantum) / 3 + 0.15)"

text \<open>The \<^verbatim>\<open>except Exception\<close> branch of \<^verbatim>\<open>analyze_and_act\<close>.\<close>

definition mark_failed :: "Incident \<Rightarrow> Incident" where
  "mark_failed incident =
     incident\<lparr>root_cause := Some ''Analysis failed'',
              confidence_score := Some 0,
              status := FAILED\<rparr>"

text \<open>The loop that stores the ticket key of every ticket action after the incident is
  resolved.\<close>

fun store_jira_mapping :: "string \<Rightarrow> ActionTaken list \<Rightarrow> (string \<times> jval) list \<Rightarrow> (string \<times> jval) list" where
  "store_jira_mapping iid [] mapping = mapping"
| "store_jira_mapping iid (a # acts) mapping =
     store_jira_mapping iid acts
       (if action_type a = ''jira_user_story'' \<and>
           (case action_result a of Some r \<Rightarrow> r \<noteq> [] \<and> truthy (dict_get r ''issue_key'') | None \<Rightarrow> False)
        then AList.update iid (dict_get (get_or (action_result a) []) ''issue_key'') mapping
        else mapping)"

text \<open>
  \<^verbatim>\<open>analyze_and_act(incident)\<close>.  The incident is the object held in the store, so
  every assignment is visible there; the function returns the incident as it is at the
  end together with the mapping.  The two Jira synchronisations run inside their own
  \<^verbatim>\<open>try/except Exception\<close> and their results are dropped.  The four engines are
  awaited together: an exception of any of them leaves the \<^verbatim>\<open>try\<close> block.
\<close>

definition analyze_and_act ::
  "pylib \<Rightarrow> world \<Rightarrow> Incident \<Rightarrow> (string \<times> jval) list \<Rightarrow> Incident \<times> (string \<times> jval) list" where
  "analyze_and_act L w incident mapping =
     (let incident = incident\<lparr>status := IN_PROGRESS\<rparr>;
          analysis = analyze_incident L (remote_ai w) (patterns w) (similar w) incident
      in (case (ml_engine w, copado_engine w, quantum_engine w) of
            (Inr ml, Inr c, Inr q) \<Rightarrow>
              (let incident = incident
                     \<lparr>root_cause := Some (analysis_root_cause analysis),
                      confidence_score := Some (webhook_confidence analysis ml q),
                      suggested_actions := webhook_actions analysis ml c q,
                      ml_insights := get_or (ml_insights_key ml) [],
                      copado_insights := get_or (copado_insights_key c) [],
                      quantum_insights := get_or (parallel_insights q) []\<rparr>
               in (case execute_actions L w incident analysis mapping of
                     (Inl e, mapping') \<Rightarrow> (mark_failed incident, mapping')
                   | (Inr actions, mapping') \<Rightarrow>
                       (let incident = incident
                              \<lparr>actions_taken := actions_taken incident @ map ActionObj actions\<rparr>;
                            incident = incident
                              \<lparr>status := RESOLVED, resolved_at := Some (resolved_now w)\<rparr>
                        in (incident, store_jira_mapping (incident_id incident) actions mapping'))))
          | _ \<Rightarrow> (mark_failed incident, mapping)))"

text \<open>
  \<^verbatim>\<open>process_git_event\<close>, \<^verbatim>\<open>process_copado_event\<close> and
  \<^verbatim>\<open>process_salesforce_event\<close> share one body, with the detector and the source name
  as the only difference.  The whole body is a \<^verbatim>\<open>try/except Exception\<close> that logs.
\<close>

definition process_event ::
  "(pylib \<Rightarrow> WebhookPayload \<Rightarrow> exn + Signal) \<Rightarrow> string \<Rightarrow>
   pylib \<Rightarrow> world \<Rightarrow> WebhookPayload \<Rightarrow> app_state \<Rightarrow> app_state" where
  "process_event detect src L w payload st =
     (case detect L payload of
        Inl e \<Rightarrow> st
      | Inr signal \<Rightarrow>
          if is_anomaly signal then
            (case create_incident_from_signal L (new_id w) (created_now w) signal src st of
               Inl e \<Rightarrow> st
             | Inr (incident, st1) \<Rightarrow>
                 (let (incident', mapping') =
                        analyze_and_act L w incident (incident_jira_mapping st1)
                  in st1\<lparr>incidents := AList.update (incident_id incident') incident' (incidents st1),
                         incident_jira_mapping := mapping'\<rparr>))
          else st)"

definition process_git_event :: "pylib \<Rightarrow> world \<Rightarrow> WebhookPayload \<Rightarrow> app_state \<Rightarrow> app_state" where
  "process_git_event = process_event analyze_git_event ''git''"

definition process_copado_event :: "pylib \<Rightarrow> world \<Rightarrow> WebhookPayload \<Rightarrow> app_state \<Rightarrow> app_state" where
  "process_copado_event = process_event analyze_copado_event ''copado''"

definition process_salesforce_event :: "pylib \<Rightarrow> world \<Rightarrow> WebhookPayload \<Rightarrow> app_state \<Rightarrow> app_state" where
  "process_salesforce_event = process_event analyze_salesforce_event ''salesforce''"

section \<open>Webhook ingress (main.py)\<close>

text \<open>
  The four \<^verbatim>\<open>POST /webhook/...\<close> handlers.  Each returns the response body and the
  state after the processing it started; \<^verbatim>\<open>/webhook/github\<close> and
  \<^verbatim>\<open>/webhook/copado\<close> await the processing, \<^verbatim>\<open>/webhook/salesforce\<close> and
  \<^verbatim>\<open>/webhook/git\<close> hand it to the background tasks that run after the response.
\<close>

datatype endpoint = Github | Copado | Salesforce | Git

definition github_webhook ::
  "pylib \<Rightarrow> world \<Rightarrow> WebhookPayload \<Rightarrow> app_state \<Rightarrow> (string \<times> string) list \<times> app_state" where
  "github_webhook L w payload st =
     ([(''status'', ''received'')],
      if payload_event_type payload \<in> set [''push'', ''pull_request'']
      then process_git_event L w payload st else st)"

definition copado_webhook ::
  "pylib \<Rightarrow> world \<Rightarrow> WebhookPayload \<Rightarrow> app_state \<Rightarrow> (string \<times> string) list \<times> app_state" where
  "copado_webhook L w payload st =
     ([(''status'', ''received'')],
      if payload_event_type payload \<in> set [''deployment_failed'', ''test_failed'', ''build_failed'']
      then process_copado_event L w payload st else st)"

definition salesforce_webhook ::
  "pylib \<Rightarrow> world \<Rightarrow> WebhookPayload \<Rightarrow> app_state \<Rightarrow> (string \<times> string) list \<times> app_state" where
  "salesforce_webhook L w payload st =
     ([(''status'', ''received'')], process_salesforce_event L w payload st)"

definition git_webhook ::
  "pylib \<Rightarrow> world \<Rightarrow> WebhookPayload \<Rightarrow> app_state \<Rightarrow> (string \<times> string) list \<times> app_state" where
  "git_webhook L w payload st =
     ([(''status'', ''received'')],
      if payload_event_type payload \<in> set [''push'', ''pull_request'', ''hotfix_commit'']
      then process_git_event L w payload st else st)"

fun webhook ::
  "endpoint \<Rightarrow> pylib \<Rightarrow> world \<Rightarrow> WebhookPayload \<Rightarrow> app_state \<Rightarrow> (string \<times> string) list \<times> app_state" where
  "webhook Github = github_webhook"
| "webhook Copado = copado_webhook"
| "webhook Salesforce = salesforce_webhook"
| "webhook Git = git_webhook"

text \<open>The event types each handler passes on to the processing; \<open>None\<close>: the handler
  has no list and passes every event on.\<close>

fun allow_list :: "endpoint \<Rightarrow> string list option" where
  "allow_list Github = Some [''push'', ''pull_request'']"
| "allow_list Copado = Some [''deployment_failed'', ''test_failed'', ''build_failed'']"
| "allow_list Salesforce = None"
| "allow_list Git = Some [''push'', ''pull_request'', ''hotfix_commit'']"

fun process_of :: "endpoint \<Rightarrow> pylib \<Rightarrow> world \<Rightarrow> WebhookPayload \<Rightarrow> app_state \<Rightarrow> app_state" where
  "process_of Github = process_git_event"
| "process_of Copado = process_copado_event"
| "process_of Salesforce = process_salesforce_event"
| "process_of Git = process_git_event"

section \<open>Requests against the store\<close>

text \<open>A request that changes the store: a webhook call with everything it gets from
  outside, or a call of the status endpoint at some time.\<close>

datatype request =
    WebhookCall endpoint pylib world WebhookPayload
  | StatusCall datetime string string

fun handle :: "request \<Rightarrow> app_state \<Rightarrow> app_state" where
  "handle (WebhookCall ep L w payload) st = snd (webhook ep L w payload st)"
| "handle (StatusCall now iid new_status) st = snd (update_incident_status now iid new_status st)"

definition run :: "request list \<Rightarrow> app_state \<Rightarrow> app_state" where
  "run reqs st = foldl (\<lambda>s r. handle r s) st reqs"

definition empty_state :: app_state where
  "empty_state = \<lparr>incidents = [], incident_jira_mapping = []\<rparr>"

section \<open>Incident manager (services/incident\_manager.py)\<close>




section \<open>Example inputs\<close>

text \<open>Concrete inputs on which the theorems below are evaluated: a library that
  formats strings as themselves and parses one timestamp, two clock readings, and a
  Copado deployment failure with the signal and the incident it leads to.\<close>

definition example_time :: datetime where
  "example_time = \<lparr>dt_year = 2024, dt_month = 1, dt_day = 15, dt_hour = 10, dt_minute = 30,
     dt_second = 0, dt_utcoffset = Some 0\<rparr>"

definition clock_a :: datetime where
  "clock_a = \<lparr>dt_year = 2025, dt_month = 6, dt_day = 1, dt_hour = 12, dt_minute = 0,
     dt_second = 0, dt_utcoffset = Some 0\<rparr>"

definition clock_b :: datetime where
  "clock_b = \<lparr>dt_year = 2025, dt_month = 6, dt_day = 1, dt_hour = 12, dt_minute = 0,
     dt_second = 2, dt_utcoffset = Some 0\<rparr>"

definition example_lib :: pylib where
  "example_lib =
     \<lparr>py_format = (\<lambda>v. case v of JStr s \<Rightarrow> s | _ \<Rightarrow> ''?''),
      py_str_dict = (\<lambda>d. concat (map fst d)),
      fromisoformat = (\<lambda>s. if s = ''2024-01-15T10:30:00+00:00'' then Some example_time else None)\<rparr>"

definition deployment_payload :: WebhookPayload where
  "deployment_payload =
     \<lparr>payload_source = ''copado'', payload_event_type = ''deployment_failed'',
      payload_data = [(''environment'', JStr ''production''),
                      (''timestamp'', JStr ''2024-01-15T10:30:00Z'')]\<rparr>"


definition deployment_incident :: Incident where
  "deployment_incident =
     \<lparr>incident_id = ''inc-1'', title = ''Copado Issue Detected'',
      description = ''Copado deployment failed'', severity = HIGH, status = OPEN,
      source = ''copado'',
      raw_data = [(''environment'', JStr ''production''),
                  (''timestamp'', JStr ''2024-01-15T10:30:00Z'')],
      detected_at = example_time, resolved_at = None, root_cause = None,
      confidence_score = None, suggested_actions = [], ml_insights = [],
      copado_insights = [], quantum_insights = [], actions_taken = []\<rparr>"

definition open_state :: app_state where
  "open_state = \<lparr>incidents = [(''inc-1'', deployment_incident)], incident_jira_mapping = []\<rparr>"


text \<open>A run in which the remote analysis and the ticket API raise, no token or chat
  webhook is configured and the other engines answer; and further payloads: one whose
  nested \<^verbatim>\<open>data\<close> is \<^verbatim>\<open>null\<close>, a push without any urgent word, a hotfix commit.\<close>

definition quiet_world :: world where
  "quiet_world =
     \<lparr>new_id = ''inc-1'',
      created_now = clock_a,
      resolved_now = clock_b,
      remote_ai = Inl ExternalError,
      patterns = \<lparr>pattern_confidence = Some 0.3\<rparr>,
      similar = \<lparr>similarity_confidence = Some 0.2, similar_incident_ids = []\<rparr>,
      ml_engine = Inr \<lparr>ml_confidence = Some 0.6, ml_recommended_actions = None, ml_insights_key = None\<rparr>,
      copado_engine = Inr \<lparr>deployment_health_score = Some 0.9, optimization_actions = None,
         copado_insights_key = None\<rparr>,
      quantum_engine = Inr \<lparr>quantum_confidence = Some 0.6,
         quantum_recommendations = Some [''Configure superposition-based predictive alerts''],
         parallel_insights = None\<rparr>,
      github_token = None,
      slack_webhook = None,
      jira_create = Inl ExternalError,
      github_post = Inl ExternalError,
      slack_post = Inl ExternalError,
      rollback_post = Inl ExternalError\<rparr>"

definition null_data_payload :: WebhookPayload where
  "null_data_payload =
     \<lparr>payload_source = ''copado'', payload_event_type = ''deployment_failed'',
      payload_data = [(''data'', JNull)]\<rparr>"

definition null_data_signal :: Signal where
  "null_data_signal =
     \<lparr>signal_source = ''copado'', signal_event_type = ''deployment_failed'',
      signal_description = ''Copado deployment failed'',
      signal_severity = 0.9, is_anomaly = True,
      signal_raw_data = [(''data'', JNull)]\<rparr>"



definition hotfix_payload :: WebhookPayload where
  "hotfix_payload =
     \<lparr>payload_source = ''git'', payload_event_type = ''hotfix_commit'',
      payload_data = [(''commit_message'', JStr ''HOTFIX: restore login'')]\<rparr>"

text \<open>An event outside the Copado list; the invariant of the store; and two request
  sequences on the deployment failure: reopening it after the pipeline has resolved it,
  and resolving it once more after that.\<close>

definition completed_payload :: WebhookPayload where
  "completed_payload =
     \<lparr>payload_source = ''copado'', payload_event_type = ''deployment_completed'',
      payload_data = [(''status'', JStr ''success'')]\<rparr>"

definition resolved_stamped :: "app_state \<Rightarrow> bool" where
  "resolved_stamped st =
     list_all (\<lambda>kv. status (snd kv) = RESOLVED \<longrightarrow> resolved_at (snd kv) \<noteq> None) (incidents st)"

definition reopen_requests :: "request list" where
  "reopen_requests =
     [WebhookCall Copado example_lib quiet_world deployment_payload,
      StatusCall clock_b ''inc-1'' ''open'']"

definition resolve_requests :: "request list" where
  "resolve_requests =
     [WebhookCall Copado example_lib quiet_world deployment_payload,
      StatusCall clock_b ''inc-1'' ''open'',
      StatusCall clock_a ''inc-1'' ''Resolved'']"

text \<open>The same run with the quantum analyzer raising.\<close>

definition quantum_down_world :: world where
  "quantum_down_world = quiet_world\<lparr>quantum_engine := Inl ExternalError\<rparr>"

section \<open>Evaluation of the example inputs\<close>





lemma IncidentStatus_of_value: "IncidentStatus_of s = Some x \<Longrightarrow> status_value x = s"
  by (auto simp: IncidentStatus_of_def split: if_splits)

lemma status_value_inj: "status_value a = status_value b \<Longrightarrow> a = b"
  by (cases a; cases b) simp_all


subsection \<open>Facts about the pipeline used by several results\<close>


lemma analyze_and_act_cases:
  "(status (fst (analyze_and_act L w inc m)) = RESOLVED \<and>
    resolved_at (fst (analyze_and_act L w inc m)) = Some (resolved_now w)) \<or>
   (status (fst (analyze_and_act L w inc m)) = FAILED \<and>
    resolved_at (fst (analyze_and_act L w inc m)) = resolved_at inc \<and>
    root_cause (fst (analyze_and_act L w inc m)) = Some ''Analysis failed'' \<and>
    confidence_score (fst (analyze_and_act L w inc m)) = Some 0)"
  by (simp add: analyze_and_act_def Let_def mark_failed_def split: sum.splits prod.splits)

lemma create_incident_id:
  "create_incident_from_signal L nid now sig src st = Inr (inc, st1) \<Longrightarrow>
   incident_id inc = nid \<and> status inc = OPEN \<and> resolved_at inc = None \<and> actions_taken inc = [] \<and>
   incidents st1 = AList.update nid inc (incidents st) \<and>
   incident_jira_mapping st1 = incident_jira_mapping st"
  by (auto simp: create_incident_from_signal_def Let_def split: sum.splits)

lemma list_all_update:
  "list_all P al \<Longrightarrow> P (k, v) \<Longrightarrow> list_all P (AList.update k v al)"
  by (induction al) auto

subsection \<open>Facts about the action execution used by several results\<close>

lemma create_jira_user_story_success:
  "action_type (fst (create_jira_user_story w inc m)) = ''jira_user_story'' \<and>
   action_status (fst (create_jira_user_story w inc m)) = ''success'' \<and>
   (\<exists>r. action_result (fst (create_jira_user_story w inc m)) = Some r \<and> r \<noteq> [])"
  by (simp add: create_jira_user_story_def create_demo_user_story_def Let_def
      split: sum.splits option.splits prod.splits)

lemma jira_step_shape:
  assumes "jira_step L w inc m = (Inr (fb, acts, i, u), m')"
  shows "\<not> fb \<and> acts = [fst (create_jira_user_story w inc m)]"
proof -
  obtain a m1 where c: "create_jira_user_story w inc m = (a, m1)"
    by (cases "create_jira_user_story w inc m")
  from create_jira_user_story_success [of w inc m] c
  have "action_status a = ''success''" and "\<exists>r. action_result a = Some r \<and> r \<noteq> []"
    by simp_all
  with assms c show ?thesis
    by (auto simp: jira_step_def Let_def split: if_splits sum.splits bool.splits)
qed

lemma later_step_types:
  "a \<in> set (github_step L w inc) \<Longrightarrow> action_type a = ''github_comment''"
  "a \<in> set (slack_step w i) \<Longrightarrow> action_type a = ''slack_notification''"
  "a \<in> set (rollback_step w inc an) \<Longrightarrow> action_type a = ''automated_rollback''"
  by (auto simp: github_step_def slack_step_def rollback_step_def
      post_github_comment_def send_slack_notification_def trigger_rollback_def
      mk_action_def Let_def split: option.splits sum.splits if_splits)


lemma execute_actions_shape:
  assumes "execute_actions L w inc an m = (Inr acts, m')"
  shows "\<exists>i. acts = fst (create_jira_user_story w inc m) #
           (github_step L w inc @ slack_step w i @ rollback_step w inc an)"
proof -
  obtain r m1 where j: "jira_step L w inc m = (r, m1)" by (cases "jira_step L w inc m")
  with assms obtain fb acts1 i u where r: "r = Inr (fb, acts1, i, u)"
    by (cases r) (auto simp: execute_actions_def)
  from jira_step_shape [OF j [unfolded r]]
  have "acts1 = [fst (create_jira_user_story w inc m)]" by simp
  with assms j r show ?thesis by (auto simp: execute_actions_def)
qed


section \<open>The status endpoint reports the new status as the old one\<close>

text \<open>
  Claim C9.  For every successful call of
  \<^verbatim>\<open>POST /incidents/{id}/status/{new_status}\<close> the \<^verbatim>\<open>old_status\<close> field of the
  response is the value of the requested status (the path segment in lower case), the
  same as the \<^verbatim>\<open>status\<close> field; whenever the incident's status before the call was
  a different one, the field is not that earlier status.  The handler reads
  \<^verbatim>\<open>old_status\<close> a second time after it has stored the new status.
\<close>

theorem update_incident_status_old_status:
  assumes "map_of (incidents st) iid = Some inc"
    and "fst (update_incident_status now iid new_status st) = Inr resp"
  shows "\<exists>s. IncidentStatus_of (str_lower new_status) = Some s \<and>
             resp_old_status resp = status_value s \<and>
             resp_status resp = status_value s \<and>
             (status inc \<noteq> s \<longrightarrow> resp_old_status resp \<noteq> status_value (status inc))"
proof -
  from assms obtain s where s: "IncidentStatus_of (str_lower new_status) = Some s"
    by (auto simp: update_incident_status_def split: option.splits)
  with assms have "resp_old_status resp = status_value s" "resp_status resp = status_value s"
    by (auto simp: update_incident_status_def Let_def split: if_splits)
  moreover have "status inc \<noteq> s \<longrightarrow> status_value s \<noteq> status_value (status inc)"
    using status_value_inj by blast
  ultimately show ?thesis using s by simp
qed

lemma str_lower_RESOLVED: "str_lower ''RESOLVED'' = ''resolved''"
  by (simp add: str_lower_def lower_char_def)

lemma resolve_open_state:
  "fst (update_incident_status clock_b ''inc-1'' ''RESOLVED'' open_state) =
     Inr \<lparr>resp_status = ''resolved'', resp_incident_id = ''inc-1'',
          resp_old_status = ''resolved'', resp_jira_synced = True\<rparr>"
  by (simp add: update_incident_status_def open_state_def str_lower_RESOLVED IncidentStatus_of_def)

theorem update_incident_status_old_status_witness:
  "map_of (incidents open_state) ''inc-1'' = Some deployment_incident \<and>
   status deployment_incident = OPEN \<and>
   fst (update_incident_status clock_b ''inc-1'' ''RESOLVED'' open_state) =
     Inr \<lparr>resp_status = ''resolved'', resp_incident_id = ''inc-1'',
          resp_old_status = ''resolved'', resp_jira_synced = True\<rparr> \<and>
   (\<exists>s. IncidentStatus_of (str_lower ''RESOLVED'') = Some s \<and>
        ''resolved'' = status_value s \<and> OPEN \<noteq> s)"
proof -
  have h1: "map_of (incidents open_state) ''inc-1'' = Some deployment_incident"
    by (simp add: open_state_def)
  have h2: "status deployment_incident = OPEN"
    by (simp add: deployment_incident_def)
  from update_incident_status_old_status [OF h1 resolve_open_state]
  obtain s where "IncidentStatus_of (str_lower ''RESOLVED'') = Some s"
    and "''resolved'' = status_value s" and "status deployment_incident \<noteq> s \<longrightarrow> ''resolved'' \<noteq> status_value (status deployment_incident)"
    by auto
  moreover from this have "OPEN \<noteq> s" by auto
  ultimately show ?thesis using h1 h2 resolve_open_state by blast
qed


section \<open>Severity of a created incident\<close>





section \<open>The anomaly flag gates incident creation\<close>




section \<open>The webhook handlers always acknowledge\<close>

text \<open>
  Claim C7, as amended.  Every handler answers \<^verbatim>\<open>{"status": "received"}\<close> whatever
  the payload and whatever the processing runs into.  The events passed on to the
  processing are \<^verbatim>\<open>push\<close> and \<^verbatim>\<open>pull_request\<close> on \<^verbatim>\<open>/webhook/github\<close>, these two
  and \<^verbatim>\<open>hotfix_commit\<close> on \<^verbatim>\<open>/webhook/git\<close>, \<^verbatim>\<open>deployment_failed\<close>,
  \<^verbatim>\<open>test_failed\<close> and \<^verbatim>\<open>build_failed\<close> on \<^verbatim>\<open>/webhook/copado\<close>, and every event
  on \<^verbatim>\<open>/webhook/salesforce\<close>; any other event leaves the state untouched.
\<close>

theorem webhook_received:
  "fst (webhook ep L w payload st) = [(''status'', ''received'')] \<and>
   snd (webhook ep L w payload st) =
     (if (case allow_list ep of None \<Rightarrow> True | Some l \<Rightarrow> payload_event_type payload \<in> set l)
      then process_of ep L w payload st else st)"
  by (cases ep)
     (simp_all add: github_webhook_def copado_webhook_def salesforce_webhook_def git_webhook_def)


theorem webhook_received_witness:
  "allow_list Copado = Some [''deployment_failed'', ''test_failed'', ''build_failed''] \<and>
   payload_event_type completed_payload \<notin> set [''deployment_failed'', ''test_failed'', ''build_failed''] \<and>
   webhook Copado example_lib quiet_world completed_payload open_state
     = ([(''status'', ''received'')], open_state)"
  using webhook_received [of Copado example_lib quiet_world completed_payload open_state]
  by (simp add: completed_payload_def prod_eq_iff)

text \<open>The claim as stated lists \<^verbatim>\<open>push\<close> and \<^verbatim>\<open>pull_request\<close> for git and has every
  other event dropped: a \<^verbatim>\<open>hotfix_commit\<close> sent to \<^verbatim>\<open>/webhook/git\<close> is processed
  and leaves an incident behind.\<close>

theorem webhook_git_hotfix_processed:
  "payload_event_type hotfix_payload \<notin> set [''push'', ''pull_request''] \<and>
   fst (webhook Git example_lib quiet_world hotfix_payload empty_state) = [(''status'', ''received'')] \<and>
   map (\<lambda>kv. (fst kv, status (snd kv)))
     (incidents (snd (webhook Git example_lib quiet_world hotfix_payload empty_state)))
     = [(''inc-1'', RESOLVED)]"
  by code_simp


section \<open>Timestamp extraction\<close>

text \<open>When the nested \<^verbatim>\<open>data\<close> is absent or an object, the extraction returns: the
  first field of the nested object that parses, else the first top-level field that
  parses, else the wall clock.\<close>

lemma extract_detected_at_object:
  assumes "raw \<noteq> []"
    and "map_of raw ''data'' = None \<or> (\<exists>d. map_of raw ''data'' = Some (JObj d))"
  shows "extract_detected_at L now raw =
     Inr (case (case map_of raw ''data'' of
                  Some (JObj d) \<Rightarrow> scan_fields L d timestamp_fields
                | _ \<Rightarrow> None) of
            Some t \<Rightarrow> t
          | None \<Rightarrow> (case scan_fields L raw timestamp_fields of Some t \<Rightarrow> t | None \<Rightarrow> now))"
  using assms
  by (auto simp: extract_detected_at_def Let_def split: option.splits)

lemma nested_timestamp_example:
  "extract_detected_at example_lib clock_a
     [(''data'', JObj [(''timestamp'', JStr ''2024-01-15T10:30:00Z'')])] = Inr example_time"
  by (simp add: extract_detected_at_def timestamp_fields_def normalize_Z_def endswith_Z_def
      example_lib_def)

text \<open>
  Claim C6.  The claim has the creation fall back to the wall clock whenever no field
  parses.  On a payload whose \<^verbatim>\<open>data\<close> holds \<^verbatim>\<open>"data": null\<close> no field parses, and
  \<^verbatim>\<open>create_incident_from_signal\<close> raises TypeError at \<^verbatim>\<open>field in data\<close>: the event
  is acknowledged and no incident is created.
\<close>

theorem null_data_creation_raises:
  "analyze_copado_event example_lib null_data_payload = Inr null_data_signal \<and>
   create_incident_from_signal example_lib ''inc-1'' clock_a null_data_signal ''copado'' empty_state
     = Inl TypeError \<and>
   copado_webhook example_lib quiet_world null_data_payload empty_state
     = ([(''status'', ''received'')], empty_state)"
  by code_simp



section \<open>A resolved incident carries its resolution time\<close>

text \<open>The invariant is kept by every request.\<close>

lemma process_event_stamped:
  assumes "resolved_stamped st"
  shows "resolved_stamped (process_event detect src L w payload st)"
proof (cases "detect L payload")
  case (Inl e)
  with assms show ?thesis by (simp add: process_event_def)
next
  case (Inr sig)
  show ?thesis
  proof (cases "is_anomaly sig")
    case False
    with Inr assms show ?thesis by (simp add: process_event_def)
  next
    case True
    show ?thesis
    proof (cases "create_incident_from_signal L (new_id w) (created_now w) sig src st")
      case (Inl e)
      with Inr True assms show ?thesis by (simp add: process_event_def)
    next
      case (Inr r)
      obtain inc st1 where r: "r = (inc, st1)" by (cases r)
      from Inr r have c: "create_incident_from_signal L (new_id w) (created_now w) sig src st = Inr (inc, st1)"
        by simp
      from create_incident_id [OF c]
      have i: "incidents st1 = AList.update (new_id w) inc (incidents st)"
        and o: "status inc = OPEN" by simp_all
      from assms o have s1: "resolved_stamped st1"
        by (simp add: resolved_stamped_def i list_all_update)
      obtain inc' m' where a: "analyze_and_act L w inc (incident_jira_mapping st1) = (inc', m')"
        by (cases "analyze_and_act L w inc (incident_jira_mapping st1)")
      from analyze_and_act_cases [of L w inc "incident_jira_mapping st1"] a
      have "status inc' = RESOLVED \<longrightarrow> resolved_at inc' \<noteq> None" by auto
      with s1 have "resolved_stamped
          (st1\<lparr>incidents := AList.update (incident_id inc') inc' (incidents st1),
               incident_jira_mapping := m'\<rparr>)"
        by (simp add: resolved_stamped_def list_all_update)
      with \<open>detect L payload = Inr sig\<close> True c a show ?thesis
        by (simp add: process_event_def)
    qed
  qed
qed

lemma list_all_map_of:
  "list_all P al \<Longrightarrow> map_of al k = Some v \<Longrightarrow> P (k, v)"
  by (induction al) (auto split: if_splits)

lemma update_status_stamped:
  assumes "resolved_stamped st"
  shows "resolved_stamped (snd (update_incident_status now iid new_status st))"
  using assms
  by (auto simp: update_incident_status_def resolved_stamped_def Let_def
      intro!: list_all_update split: option.splits)

lemma handle_stamped: "resolved_stamped st \<Longrightarrow> resolved_stamped (handle r st)"
proof (cases r)
  case (WebhookCall ep L w payload)
  assume "resolved_stamped st"
  then show ?thesis unfolding WebhookCall
    by (cases ep)
       (simp_all add: github_webhook_def copado_webhook_def salesforce_webhook_def git_webhook_def
          process_git_event_def process_copado_event_def process_salesforce_event_def
          process_event_stamped)
next
  case (StatusCall now iid new_status)
  assume "resolved_stamped st"
  then show ?thesis unfolding StatusCall by (simp add: update_status_stamped)
qed

lemma run_stamped: "resolved_stamped st \<Longrightarrow> resolved_stamped (run reqs st)"
  unfolding run_def by (induction reqs arbitrary: st) (simp_all add: handle_stamped)


text \<open>
  Claim C1, as amended.  After any sequence of webhook calls and calls of the status
  endpoint, starting from the empty store, every incident in the store whose status is
  \<open>RESOLVED\<close> has a \<^verbatim>\<open>resolved_at\<close>.  (Each request is taken as a whole; the
  pipeline sets the status and the time in two adjacent assignments.)
\<close>

theorem resolved_has_resolved_at:
  assumes "map_of (incidents (run reqs empty_state)) iid = Some inc"
    and "status inc = RESOLVED"
  shows "resolved_at inc \<noteq> None"
proof -
  have "resolved_stamped empty_state" by (simp add: resolved_stamped_def empty_state_def)
  then have st: "resolved_stamped (run reqs empty_state)" by (rule run_stamped)
  from list_all_map_of [OF st [unfolded resolved_stamped_def] assms(1)] assms(2)
  show ?thesis by simp
qed

lemma resolve_requests_status:
  "map_option status (map_of (incidents (run resolve_requests empty_state)) ''inc-1'') = Some RESOLVED"
  by code_simp

theorem resolved_has_resolved_at_witness:
  "map_option status (map_of (incidents (run resolve_requests empty_state)) ''inc-1'') = Some RESOLVED \<and>
   map_option resolved_at (map_of (incidents (run resolve_requests empty_state)) ''inc-1'') \<noteq> Some None"
proof -
  from resolve_requests_status obtain inc
    where i: "map_of (incidents (run resolve_requests empty_state)) ''inc-1'' = Some inc"
      and s: "status inc = RESOLVED" by auto
  from resolved_has_resolved_at [OF i s] i resolve_requests_status show ?thesis by simp
qed


text \<open>The converse half of the claim fails: the status endpoint never clears
  \<^verbatim>\<open>resolved_at\<close>, so an incident that the pipeline resolved and a caller then set
  back to \<^verbatim>\<open>open\<close> is open and still carries the time.\<close>

theorem reopened_keeps_resolved_at:
  "map_option status (map_of (incidents (run reopen_requests empty_state)) ''inc-1'') = Some OPEN \<and>
   map_option resolved_at (map_of (incidents (run reopen_requests empty_state)) ''inc-1'') = Some (Some clock_b)"
  by code_simp



section \<open>Failure of an analysis engine\<close>

lemma fallback_root_cause: "analysis_root_cause (fallback_analysis L inc) \<noteq> ''Analysis failed''"
  by (simp add: fallback_analysis_def Let_def)

lemma analyze_incident_remote_raises:
  "remote_ai w = Inl e \<Longrightarrow>
   analyze_incident L (remote_ai w) p s inc = fallback_analysis L inc"
  by (simp add: analyze_incident_def)


text \<open>
  Claim C2, as amended.  When the machine-learning predictor, the Copado intelligence engine or the
  quantum analyzer raises, \<^verbatim>\<open>analyze_and_act\<close> leaves the incident with status
  \<open>FAILED\<close>, root cause \<^verbatim>\<open>"Analysis failed"\<close> and confidence \<open>0\<close>.  An exception of
  the remote AI call does not: \<^verbatim>\<open>analyze_incident\<close> catches it and returns the
  rule-based fallback analysis, so when the other engines answer and the action execution
  returns, the incident is resolved with the fallback's root cause (never
  \<^verbatim>\<open>"Analysis failed"\<close>) and a confidence computed from the fallback's.
\<close>

theorem analysis_failure_semantics:
  "((\<exists>e. ml_engine w = Inl e) \<or> (\<exists>e. copado_engine w = Inl e) \<or> (\<exists>e. quantum_engine w = Inl e) \<longrightarrow>
      status (fst (analyze_and_act L w inc m)) = FAILED \<and>
      root_cause (fst (analyze_and_act L w inc m)) = Some ''Analysis failed'' \<and>
      confidence_score (fst (analyze_and_act L w inc m)) = Some 0) \<and>
   (\<forall>e ml c q. remote_ai w = Inl e \<longrightarrow> ml_engine w = Inr ml \<longrightarrow> copado_engine w = Inr c \<longrightarrow>
      quantum_engine w = Inr q \<longrightarrow> status (fst (analyze_and_act L w inc m)) \<noteq> FAILED \<longrightarrow>
      status (fst (analyze_and_act L w inc m)) = RESOLVED \<and>
      root_cause (fst (analyze_and_act L w inc m)) =
        Some (analysis_root_cause (fallback_analysis L (inc\<lparr>status := IN_PROGRESS\<rparr>))) \<and>
      root_cause (fst (analyze_and_act L w inc m)) \<noteq> Some ''Analysis failed'' \<and>
      confidence_score (fst (analyze_and_act L w inc m)) =
        Some (webhook_confidence (fallback_analysis L (inc\<lparr>status := IN_PROGRESS\<rparr>)) ml q))"
proof (intro conjI impI allI)
  assume "(\<exists>e. ml_engine w = Inl e) \<or> (\<exists>e. copado_engine w = Inl e) \<or> (\<exists>e. quantum_engine w = Inl e)"
  then have f: "fst (analyze_and_act L w inc m) = mark_failed (inc\<lparr>status := IN_PROGRESS\<rparr>)"
    by (auto simp: analyze_and_act_def Let_def split: sum.splits)
  show "status (fst (analyze_and_act L w inc m)) = FAILED"
    and "root_cause (fst (analyze_and_act L w inc m)) = Some ''Analysis failed''"
    and "confidence_score (fst (analyze_and_act L w inc m)) = Some 0"
    by (simp_all add: f mark_failed_def)
next
  fix e ml c q
  assume r: "remote_ai w = Inl e" and e: "ml_engine w = Inr ml" "copado_engine w = Inr c"
    "quantum_engine w = Inr q" and nf: "status (fst (analyze_and_act L w inc m)) \<noteq> FAILED"
  let ?fb = "fallback_analysis L (inc\<lparr>status := IN_PROGRESS\<rparr>)"
  from r e nf
  have "status (fst (analyze_and_act L w inc m)) = RESOLVED \<and>
        root_cause (fst (analyze_and_act L w inc m)) = Some (analysis_root_cause ?fb) \<and>
        confidence_score (fst (analyze_and_act L w inc m)) = Some (webhook_confidence ?fb ml q)"
    by (auto simp: analyze_and_act_def analyze_incident_def Let_def mark_failed_def
        split: sum.splits prod.splits)
  then show "status (fst (analyze_and_act L w inc m)) = RESOLVED"
    and "root_cause (fst (analyze_and_act L w inc m)) = Some (analysis_root_cause ?fb)"
    and "confidence_score (fst (analyze_and_act L w inc m)) = Some (webhook_confidence ?fb ml q)"
    and "root_cause (fst (analyze_and_act L w inc m)) \<noteq> Some ''Analysis failed''"
    by (simp_all add: fallback_root_cause)
qed

theorem analysis_failure_semantics_witness:
  "quantum_engine quantum_down_world = Inl ExternalError \<and>
   status (fst (analyze_and_act example_lib quantum_down_world deployment_incident [])) = FAILED \<and>
   root_cause (fst (analyze_and_act example_lib quantum_down_world deployment_incident []))
     = Some ''Analysis failed'' \<and>
   confidence_score (fst (analyze_and_act example_lib quantum_down_world deployment_incident []))
     = Some 0 \<and>
   remote_ai quiet_world = Inl ExternalError \<and>
   status (fst (analyze_and_act example_lib quiet_world deployment_incident [])) = RESOLVED \<and>
   root_cause (fst (analyze_and_act example_lib quiet_world deployment_incident []))
     \<noteq> Some ''Analysis failed''"
proof -
  have q: "quantum_engine quantum_down_world = Inl ExternalError"
    by (simp add: quantum_down_world_def)
  have r: "remote_ai quiet_world = Inl ExternalError"
    and e: "ml_engine quiet_world = Inr \<lparr>ml_confidence = Some 0.6, ml_recommended_actions = None, ml_insights_key = None\<rparr>"
      "copado_engine quiet_world = Inr \<lparr>deployment_health_score = Some 0.9, optimization_actions = None,
         copado_insights_key = None\<rparr>"
      "quantum_engine quiet_world = Inr \<lparr>quantum_confidence = Some 0.6,
         quantum_recommendations = Some [''Configure superposition-based predictive alerts''],
         parallel_insights = None\<rparr>"
    by (simp_all add: quiet_world_def)
  have s: "status (fst (analyze_and_act example_lib quiet_world deployment_incident [])) = RESOLVED"
    by code_simp
  then have nf: "status (fst (analyze_and_act example_lib quiet_world deployment_incident [])) \<noteq> FAILED"
    by simp
  from analysis_failure_semantics [of quantum_down_world example_lib deployment_incident "[]"] q
  have a: "status (fst (analyze_and_act example_lib quantum_down_world deployment_incident [])) = FAILED \<and>
   root_cause (fst (analyze_and_act example_lib quantum_down_world deployment_incident []))
     = Some ''Analysis failed'' \<and>
   confidence_score (fst (analyze_and_act example_lib quantum_down_world deployment_incident []))
     = Some 0" by blast
  from analysis_failure_semantics [of quiet_world example_lib deployment_incident "[]"] r e nf
  have b: "root_cause (fst (analyze_and_act example_lib quiet_world deployment_incident []))
     \<noteq> Some ''Analysis failed''" by blast
  from q r s a b show ?thesis by simp
qed


text \<open>The claim as stated fails on the deployment failure: the remote call raises, and
  the incident ends resolved with a fallback root cause and a confidence that is not
  zero.\<close>

theorem remote_failure_still_resolves:
  "remote_ai quiet_world = Inl ExternalError \<and>
   map_option status
     (map_of (incidents (process_copado_event example_lib quiet_world deployment_payload empty_state)) ''inc-1'')
     = Some RESOLVED \<and>
   map_option root_cause
     (map_of (incidents (process_copado_event example_lib quiet_world deployment_payload empty_state)) ''inc-1'')
     = Some (Some ''Fallback analysis: Copado CI/CD pipeline issue detected'') \<and>
   map_option confidence_score
     (map_of (incidents (process_copado_event example_lib quiet_world deployment_payload empty_state)) ''inc-1'')
     \<noteq> Some (Some 0)"
  by code_simp



section \<open>The ticket step always reports success\<close>

text \<open>
  Claim C10.  Whatever the ticket API does (return a result, report a failure, raise),
  \<^verbatim>\<open>_create_jira_user_story\<close> returns an action of type \<^verbatim>\<open>jira_user_story\<close> with
  status \<^verbatim>\<open>success\<close>; the \<^verbatim>\<open>else\<close> branch of the ticket step in
  \<^verbatim>\<open>execute_actions\<close> never runs, and a list returned by \<^verbatim>\<open>execute_actions\<close> holds
  exactly one ticket action, at its head, which is that successful one.
\<close>

theorem jira_ticket_always_success:
  "action_type (fst (create_jira_user_story w inc m)) = ''jira_user_story'' \<and>
   action_status (fst (create_jira_user_story w inc m)) = ''success'' \<and>
   (\<forall>fb acts i u m'. jira_step L w inc m = (Inr (fb, acts, i, u), m') \<longrightarrow> \<not> fb) \<and>
   (\<forall>acts m'. execute_actions L w inc an m = (Inr acts, m') \<longrightarrow>
      filter (\<lambda>a. action_type a = ''jira_user_story'') acts = [fst (create_jira_user_story w inc m)] \<and>
      hd acts = fst (create_jira_user_story w inc m))"
proof (intro conjI allI impI)
  show "action_type (fst (create_jira_user_story w inc m)) = ''jira_user_story''"
    and "action_status (fst (create_jira_user_story w inc m)) = ''success''"
    using create_jira_user_story_success [of w inc m] by simp_all
next
  fix fb acts i u m'
  assume "jira_step L w inc m = (Inr (fb, acts, i, u), m')"
  then show "\<not> fb" using jira_step_shape by blast
next
  fix acts m'
  assume e: "execute_actions L w inc an m = (Inr acts, m')"
  let ?j = "fst (create_jira_user_story w inc m)"
  have t: "action_type ?j = ''jira_user_story''"
    using create_jira_user_story_success [of w inc m] by simp
  from execute_actions_shape [OF e] obtain i
    where a: "acts = ?j # (github_step L w inc @ slack_step w i @ rollback_step w inc an)" ..
  have "filter (\<lambda>a. action_type a = ''jira_user_story'') (github_step L w inc) = []"
    "filter (\<lambda>a. action_type a = ''jira_user_story'') (slack_step w i) = []"
    "filter (\<lambda>a. action_type a = ''jira_user_story'') (rollback_step w inc an) = []"
    by (auto simp: filter_empty_conv dest: later_step_types)
  with a t show "filter (\<lambda>a. action_type a = ''jira_user_story'') acts = [?j]" by simp
  from a show "hd acts = ?j" by simp
qed

theorem jira_ticket_always_success_witness:
  "jira_create quiet_world = Inl ExternalError \<and>
   fst (execute_actions example_lib quiet_world deployment_incident
          (fallback_analysis example_lib deployment_incident) []) =
     Inr [create_demo_user_story deployment_incident,
          mk_action ''slack_notification'' ''success''
            (Some [(''channel'', JStr ''#devops-alerts''),
                   (''message_id'', JStr ''1234567890''),
                   (''jira_story'', JStr ''US-INC-1'')])] \<and>
   action_status (create_demo_user_story deployment_incident) = ''success'' \<and>
   fst (create_jira_user_story quiet_world deployment_incident []) = create_demo_user_story deployment_incident"
proof -
  have e: "execute_actions example_lib quiet_world deployment_incident
          (fallback_analysis example_lib deployment_incident) [] =
     (Inr [create_demo_user_story deployment_incident,
          mk_action ''slack_notification'' ''success''
            (Some [(''channel'', JStr ''#devops-alerts''),
                   (''message_id'', JStr ''1234567890''),
                   (''jira_story'', JStr ''US-INC-1'')])], [])"
    by code_simp
  from jira_ticket_always_success [of quiet_world deployment_incident "[]" example_lib
      "fallback_analysis example_lib deployment_incident"] e
  have "hd [create_demo_user_story deployment_incident,
          mk_action ''slack_notification'' ''success''
            (Some [(''channel'', JStr ''#devops-alerts''),
                   (''message_id'', JStr ''1234567890''),
                   (''jira_story'', JStr ''US-INC-1'')])] = fst (create_jira_user_story quiet_world deployment_incident [])"
    and "action_status (fst (create_jira_user_story quiet_world deployment_incident [])) = ''success''"
    by blast+
  then show ?thesis using e by (simp add: quiet_world_def)
qed


section \<open>The action log\<close>







text \<open>The status synchronisation can report a fourth status, \<^verbatim>\<open>completed\<close>; its
  result is dropped by every caller in \<^verbatim>\<open>main.py\<close> and never reaches the list.\<close>

lemma sync_jira_status_statuses:
  "action_status (sync_jira_status mapping search upd inc) \<in> {''skipped'', ''completed'', ''failed''}"
  by (simp add: sync_jira_status_def split: sum.splits option.splits)

lemma sync_jira_status_completed:
  "action_status (sync_jira_status [(''inc-1'', JStr ''AIOBS-1'')] (Inl ExternalError)
     (Inr [(''success'', JBool True)]) deployment_incident) = ''completed''"
  by (simp add: sync_jira_status_def deployment_incident_def)

section \<open>The merge of the analyses\<close>

text \<open>Inserting the keys one by one into an ordered dict removes the duplicates and
  keeps every first occurrence in place.\<close>

lemma fromkeys_fold:
  "map fst (foldl (\<lambda>d k. AList.update k () d) d0 xs) =
   map fst d0 @ first_seen (filter (\<lambda>x. x \<notin> set (map fst d0)) xs)"
proof (induction xs arbitrary: d0)
  case Nil
  show ?case by simp
next
  case (Cons x xs)
  show ?case
  proof (cases "x \<in> set (map fst d0)")
    case True
    then have "map fst (AList.update x () d0) = map fst d0" by (simp add: update_keys)
    with Cons [of "AList.update x () d0"] True show ?thesis by simp
  next
    case False
    then have k: "map fst (AList.update x () d0) = map fst d0 @ [x]" by (simp add: update_keys)
    have "filter (\<lambda>y. y \<notin> set (map fst d0 @ [x])) xs =
          filter (\<lambda>y. y \<noteq> x) (filter (\<lambda>y. y \<notin> set (map fst d0)) xs)"
      by (auto intro: filter_cong)
    with Cons [of "AList.update x () d0"] k False show ?thesis by simp
  qed
qed

lemma unique_keys_first_seen: "unique_keys xs = first_seen xs"
  using fromkeys_fold [of "[]" xs] by (simp add: unique_keys_def dict_fromkeys_def)

lemma first_seen_set: "set (first_seen xs) = set xs"
  by (induction xs rule: first_seen.induct) auto

lemma first_seen_distinct: "distinct (first_seen xs)"
  by (induction xs rule: first_seen.induct) (auto simp: first_seen_set)


text \<open>
  Claim C5, as amended.  In the ensemble path (\<^verbatim>\<open>_combine_analyses\<close>) the confidence
  is the weighted sum of the four analysis steps' confidences (AI result 0.4, pattern
  0.25, prediction 0.2, similarity 0.15, with the defaults of the source for a missing
  key), capped at 0.95, and the suggested actions are the AI result's actions followed by
  the prevention suggestions, without duplicates, first occurrences in place, cut to 8.
  In the webhook path (\<^verbatim>\<open>analyze_and_act\<close>) the confidence is the mean of three
  confidences (the analysis, the predictor, the quantum analyzer) plus 0.15, capped at
  0.98, and the suggested actions are the four engines' lists in the order analysis,
  predictor, Copado engine, quantum analyzer, without duplicates, first occurrences in
  place, cut to 5; these are the values a resolved incident carries.  Scores are real
  numbers here.
\<close>

theorem merge_policy:
  "confidence (combine_analyses a p r s) =
     min 0.95 (0.4 * get_or (ai_confidence a) 0.5 + 0.25 * get_or (pattern_confidence p) 0.3 +
               0.2 * get_or (prediction_confidence r) 0.6 + 0.15 * get_or (similarity_confidence s) 0.3) \<and>
   confidence (combine_analyses a p r s) \<le> 0.95 \<and>
   analysis_suggested_actions (combine_analyses a p r s) =
     take 8 (first_seen (get_or (ai_suggested_actions a) [] @ get_or (prevention_suggestions r) [])) \<and>
   webhook_confidence an ml q =
     min 0.98 ((confidence an + get_or (ml_confidence ml) 0.5 + get_or (quantum_confidence q) 0.5) / 3 + 0.15) \<and>
   webhook_confidence an ml q \<le> 0.98 \<and>
   webhook_actions an ml c q =
     take 5 (first_seen (analysis_suggested_actions an @ get_or (ml_recommended_actions ml) [] @
                         get_or (optimization_actions c) [] @ get_or (quantum_recommendations q) [])) \<and>
   (ml_engine w = Inr ml \<longrightarrow> copado_engine w = Inr c \<longrightarrow> quantum_engine w = Inr q \<longrightarrow>
      status (fst (analyze_and_act L w inc m)) = RESOLVED \<longrightarrow>
      confidence_score (fst (analyze_and_act L w inc m)) =
        Some (webhook_confidence
               (analyze_incident L (remote_ai w) (patterns w) (similar w) (inc\<lparr>status := IN_PROGRESS\<rparr>)) ml q) \<and>
      suggested_actions (fst (analyze_and_act L w inc m)) =
        webhook_actions
          (analyze_incident L (remote_ai w) (patterns w) (similar w) (inc\<lparr>status := IN_PROGRESS\<rparr>)) ml c q)"
proof (intro conjI impI)
  show "confidence (combine_analyses a p r s) =
     min 0.95 (0.4 * get_or (ai_confidence a) 0.5 + 0.25 * get_or (pattern_confidence p) 0.3 +
               0.2 * get_or (prediction_confidence r) 0.6 + 0.15 * get_or (similarity_confidence s) 0.3)"
    by (simp add: combine_analyses_def combined_confidence_def Let_def mult.commute)
  show "confidence (combine_analyses a p r s) \<le> 0.95"
    by (simp add: combine_analyses_def Let_def)
  show "analysis_suggested_actions (combine_analyses a p r s) =
     take 8 (first_seen (get_or (ai_suggested_actions a) [] @ get_or (prevention_suggestions r) []))"
    by (simp add: combine_analyses_def Let_def unique_keys_first_seen)
  show "webhook_confidence an ml q =
     min 0.98 ((confidence an + get_or (ml_confidence ml) 0.5 + get_or (quantum_confidence q) 0.5) / 3 + 0.15)"
    by (simp add: webhook_confidence_def)
  show "webhook_confidence an ml q \<le> 0.98"
    unfolding webhook_confidence_def by (rule min.cobounded1)
  show "webhook_actions an ml c q =
     take 5 (first_seen (analysis_suggested_actions an @ get_or (ml_recommended_actions ml) [] @
                         get_or (optimization_actions c) [] @ get_or (quantum_recommendations q) []))"
    by (simp add: webhook_actions_def unique_keys_first_seen)
next
  assume e: "ml_engine w = Inr ml" "copado_engine w = Inr c" "quantum_engine w = Inr q"
    and s: "status (fst (analyze_and_act L w inc m)) = RESOLVED"
  let ?an = "analyze_incident L (remote_ai w) (patterns w) (similar w) (inc\<lparr>status := IN_PROGRESS\<rparr>)"
  from e s have "confidence_score (fst (analyze_and_act L w inc m)) = Some (webhook_confidence ?an ml q) \<and>
     suggested_actions (fst (analyze_and_act L w inc m)) = webhook_actions ?an ml c q"
    by (auto simp: analyze_and_act_def Let_def mark_failed_def split: sum.splits prod.splits)
  then show "confidence_score (fst (analyze_and_act L w inc m)) = Some (webhook_confidence ?an ml q)"
    and "suggested_actions (fst (analyze_and_act L w inc m)) = webhook_actions ?an ml c q"
    by simp_all
qed


theorem merge_policy_witness:
  "ml_engine quiet_world = Inr \<lparr>ml_confidence = Some 0.6, ml_recommended_actions = None,
      ml_insights_key = None\<rparr> \<and>
   copado_engine quiet_world = Inr \<lparr>deployment_health_score = Some 0.9, optimization_actions = None,
      copado_insights_key = None\<rparr> \<and>
   quantum_engine quiet_world = Inr \<lparr>quantum_confidence = Some 0.6,
      quantum_recommendations = Some [''Configure superposition-based predictive alerts''],
      parallel_insights = None\<rparr> \<and>
   status (fst (analyze_and_act example_lib quiet_world deployment_incident [])) = RESOLVED \<and>
   confidence_score (fst (analyze_and_act example_lib quiet_world deployment_incident [])) = Some (49 / 60) \<and>
   suggested_actions (fst (analyze_and_act example_lib quiet_world deployment_incident [])) =
     [''Review Copado pipeline logs'', ''Check environment configuration'',
      ''Verify user permissions and access'',
      ''Configure superposition-based predictive alerts'']"
proof -
  let ?ml = "\<lparr>ml_confidence = Some 0.6, ml_recommended_actions = None, ml_insights_key = None\<rparr>"
  let ?c = "\<lparr>deployment_health_score = Some 0.9, optimization_actions = None,
      copado_insights_key = None\<rparr>"
  let ?q = "\<lparr>quantum_confidence = Some 0.6,
      quantum_recommendations = Some [''Configure superposition-based predictive alerts''],
      parallel_insights = None\<rparr>"
  let ?an = "analyze_incident example_lib (remote_ai quiet_world) (patterns quiet_world)
      (similar quiet_world) (deployment_incident\<lparr>status := IN_PROGRESS\<rparr>)"
  have e: "ml_engine quiet_world = Inr ?ml" "copado_engine quiet_world = Inr ?c"
    "quantum_engine quiet_world = Inr ?q"
    by (simp_all add: quiet_world_def)
  have s: "status (fst (analyze_and_act example_lib quiet_world deployment_incident [])) = RESOLVED"
    by code_simp
  have v: "webhook_confidence ?an ?ml ?q = 49 / 60"
    by code_simp
  have a: "webhook_actions ?an ?ml ?c ?q =
     [''Review Copado pipeline logs'', ''Check environment configuration'',
      ''Verify user permissions and access'',
      ''Configure superposition-based predictive alerts'']"
    by code_simp
  from merge_policy [where w = quiet_world and ml = ?ml and c = ?c and q = ?q and L = example_lib
      and inc = deployment_incident and m = "[]"] e s
  have "confidence_score (fst (analyze_and_act example_lib quiet_world deployment_incident [])) =
        Some (webhook_confidence ?an ?ml ?q)"
    and "suggested_actions (fst (analyze_and_act example_lib quiet_world deployment_incident [])) =
        webhook_actions ?an ?ml ?c ?q"
    by blast+
  with e s v a show ?thesis by simp
qed


text \<open>The claim as stated averages the scores of all four engines in the webhook path.
  On the deployment failure the analysis has confidence 0.8, the predictor 0.6, the
  Copado engine reports 0.9 and the quantum analyzer 0.6: the incident gets
  \<open>(0.8 + 0.6 + 0.6) / 3 + 0.15 = 49/60\<close>, not the capped value 0.98 that one third of
  each of the four scores plus the boost gives.\<close>

theorem copado_score_not_averaged:
  "confidence (fallback_analysis example_lib (deployment_incident\<lparr>status := IN_PROGRESS\<rparr>)) = 0.8 \<and>
   ml_engine quiet_world = Inr \<lparr>ml_confidence = Some 0.6, ml_recommended_actions = None,
      ml_insights_key = None\<rparr> \<and>
   copado_engine quiet_world = Inr \<lparr>deployment_health_score = Some 0.9, optimization_actions = None,
      copado_insights_key = None\<rparr> \<and>
   quantum_engine quiet_world = Inr \<lparr>quantum_confidence = Some 0.6,
      quantum_recommendations = Some [''Configure superposition-based predictive alerts''],
      parallel_insights = None\<rparr> \<and>
   confidence_score (fst (analyze_and_act example_lib quiet_world deployment_incident [])) = Some (49 / 60) \<and>
   claimed_webhook_confidence 0.8 0.6 0.9 0.6 = 0.98"
  by code_simp


end
